theory Spec2Isabelle
  imports Complex_Main "HOL-Library.Multiset"
begin

section \<open>Values, rows and errors\<close>

text \<open>
  A cell of a pandas table. \<open>Null\<close> stands for the missing value of a column (NaN in a
  numeric column, NaT in a datetime column, None in an object column). Numbers are the
  rationals the floats denote; rounding is not modelled. A timestamp \<open>Ts\<close> is the number of
  nanoseconds since the epoch (timezone-naive); \<open>Day\<close> is a calendar date as days since the
  epoch.
\<close>

datatype cell = Null | Num rat | Str string | Ts int | Day int

datatype error = FileNotFoundError | KeyError | TypeError | ValueError

text \<open>A row handed to a row-wise function: \<open>row.get(k, d)\<close> is \<open>d\<close> when \<open>k\<close> is no label.\<close>

type_synonym row = "string \<rightharpoonup> cell"

section \<open>mock/weather_generator.py\<close>

text \<open>
  A Python variable of \<open>generate_label\<close> holds a cell or Python's \<open>None\<close> (the default of
  \<open>row.get\<close>): a \<open>cell option\<close>. Truthiness: \<open>None\<close> and zero are false, NaN is true.
\<close>

fun truthy :: "cell option \<Rightarrow> bool" where
  "truthy None = False"
| "truthy (Some Null) = True"
| "truthy (Some (Num x)) = (x \<noteq> 0)"
| "truthy (Some (Str s)) = (s \<noteq> [])"
| "truthy (Some (Ts t)) = True"
| "truthy (Some (Day d)) = True"

text \<open>
  An ordering comparison of a variable with a number literal: NaN compares false, and a
  value that is no number (a string, a timestamp, a date, \<open>None\<close>) raises \<open>TypeError\<close>.
\<close>

fun compare_num :: "(rat \<Rightarrow> rat \<Rightarrow> bool) \<Rightarrow> cell option \<Rightarrow> rat \<Rightarrow> error + bool" where
  "compare_num rel (Some (Num x)) c = Inr (rel x c)"
| "compare_num rel (Some Null) c = Inr False"
| "compare_num rel _ c = Inl TypeError"

definition gt :: "cell option \<Rightarrow> rat \<Rightarrow> error + bool" where
  "gt v c = compare_num (\<lambda>x y. x > y) v c"

definition lt :: "cell option \<Rightarrow> rat \<Rightarrow> error + bool" where
  "lt v c = compare_num (\<lambda>x y. x < y) v c"

definition ge :: "cell option \<Rightarrow> rat \<Rightarrow> error + bool" where
  "ge v c = compare_num (\<lambda>x y. x \<ge> y) v c"

definition le :: "cell option \<Rightarrow> rat \<Rightarrow> error + bool" where
  "le v c = compare_num (\<lambda>x y. x \<le> y) v c"

text \<open>\<open>v == 1\<close> never raises: a value that is no number is just not equal.\<close>

fun eq_num :: "cell option \<Rightarrow> rat \<Rightarrow> error + bool" where
  "eq_num (Some (Num x)) c = Inr (x = c)"
| "eq_num _ c = Inr False"

text \<open>Python's \<open>a and b\<close>: \<open>b\<close> is evaluated only when \<open>a\<close> is true.\<close>

fun and_also :: "error + bool \<Rightarrow> error + bool \<Rightarrow> error + bool" where
  "and_also (Inl e) b = Inl e"
| "and_also (Inr False) b = Inr False"
| "and_also (Inr True) b = b"

text \<open>
  One rule of the classifier,
  \<^verbatim>\<open>if guard: if cond: return label\<close>,
  followed by the remaining statements \<open>rest\<close>.
\<close>

definition rule :: "bool \<Rightarrow> error + bool \<Rightarrow> string \<Rightarrow> error + string \<Rightarrow> error + string" where
  "rule guard cond label rest =
     (if guard then (case cond of Inl e \<Rightarrow> Inl e
                     | Inr True \<Rightarrow> Inr label
                     | Inr False \<Rightarrow> rest)
      else rest)"

definition generate_label :: "row \<Rightarrow> error + string" where
  "generate_label row =
    (let rh = row ''relative_humidity_2m (%)'';
         cc_low = row ''cloud_cover_low (%)'';
         cc_total = row ''cloud_cover (%)'';
         ws = row ''wind_speed_10m (km/h)'';
         precip = row ''precipitation (mm)'';
         is_day = (case row ''is_day ()'' of None \<Rightarrow> Some (Num 1) | Some c \<Rightarrow> Some c)
     in
       rule (truthy rh \<and> truthy cc_low \<and> ws \<noteq> None)
            (and_also (gt rh 90) (and_also (gt cc_low 80) (lt ws 2))) ''Fog''
      (rule (truthy ws \<and> precip \<noteq> None)
            (and_also (gt ws 12) (gt precip 2)) ''Stormy''
      (rule (truthy ws \<and> precip \<noteq> None \<and> rh \<noteq> None)
            (and_also (gt ws 10) (and_also (lt precip (1/10)) (lt rh 40))) ''Sandstorms''
      (rule (truthy ws \<and> precip \<noteq> None)
            (and_also (and_also (ge ws 6) (le ws 12)) (lt precip 1)) ''Windy''
      (rule (truthy cc_total \<and> precip \<noteq> None)
            (and_also (gt cc_total 70) (lt precip 1)) ''Cloudy''
      (rule (cc_total \<noteq> None \<and> is_day \<noteq> None)
            (and_also (lt cc_total 30) (eq_num is_day 1)) ''Sunny''
      (Inr ''Cloudy'')))))))"

text \<open>The six fields the classifier reads.\<close>

definition weather_fields :: "string list" where
  "weather_fields = [''relative_humidity_2m (%)'', ''cloud_cover_low (%)'', ''cloud_cover (%)'',
     ''wind_speed_10m (km/h)'', ''precipitation (mm)'', ''is_day ()'']"

text \<open>A measurement field, when present, holds a number or the missing value.\<close>

fun numeric_cell :: "cell option \<Rightarrow> bool" where
  "numeric_cell None = True"
| "numeric_cell (Some Null) = True"
| "numeric_cell (Some (Num x)) = True"
| "numeric_cell (Some _) = False"

definition numeric_row :: "row \<Rightarrow> bool" where
  "numeric_row row = list_all (\<lambda>k. numeric_cell (row k)) weather_fields"

text \<open>
  The rule list of the classifier over optional numbers: a rule whose operand is missing
  does not apply. The label of the third rule is a parameter.
\<close>

fun holds :: "(rat \<Rightarrow> bool) \<Rightarrow> rat option \<Rightarrow> bool" where
  "holds p None = False"
| "holds p (Some x) = p x"

definition weather_rules ::
  "string \<Rightarrow> rat option \<Rightarrow> rat option \<Rightarrow> rat option \<Rightarrow> rat option \<Rightarrow> rat option \<Rightarrow>
   rat option \<Rightarrow> string" where
  "weather_rules sandstorm humidity cloud_low cloud_total wind precipitation is_day =
     (if holds (\<lambda>x. x > 90) humidity \<and> holds (\<lambda>x. x > 80) cloud_low \<and> holds (\<lambda>x. x < 2) wind
        then ''Fog''
      else if holds (\<lambda>x. x > 12) wind \<and> holds (\<lambda>x. x > 2) precipitation
        then ''Stormy''
      else if holds (\<lambda>x. x > 10) wind \<and> holds (\<lambda>x. x < 1/10) precipitation
              \<and> holds (\<lambda>x. x < 40) humidity
        then sandstorm
      else if holds (\<lambda>x. 6 \<le> x \<and> x \<le> 12) wind \<and> holds (\<lambda>x. x < 1) precipitation
        then ''Windy''
      else if holds (\<lambda>x. x > 70) cloud_total \<and> holds (\<lambda>x. x < 1) precipitation
        then ''Cloudy''
      else if holds (\<lambda>x. x < 30) cloud_total \<and> holds (\<lambda>x. x = 1) is_day
        then ''Sunny''
      else ''Cloudy'')"

text \<open>The number a field holds; an absent field and a missing value hold none.\<close>

fun measurement :: "cell option \<Rightarrow> rat option" where
  "measurement (Some (Num x)) = Some x"
| "measurement _ = None"

text \<open>The rule list as the specification words it: a missing day indicator is no operand.\<close>

definition specified_weather_label :: "row \<Rightarrow> string" where
  "specified_weather_label row = weather_rules ''Sandstorm''
      (measurement (row ''relative_humidity_2m (%)'')) (measurement (row ''cloud_cover_low (%)''))
      (measurement (row ''cloud_cover (%)'')) (measurement (row ''wind_speed_10m (km/h)''))
      (measurement (row ''precipitation (mm)'')) (measurement (row ''is_day ()''))"

definition specified_weather_labels :: "string list" where
  "specified_weather_labels = [''Fog'', ''Stormy'', ''Sandstorm'', ''Windy'', ''Cloudy'', ''Sunny'']"

text \<open>
  The rule list with the label the code returns for the third rule and with the day
  indicator of a row that has no such field taken as 1.
\<close>

definition is_day_or_default :: "row \<Rightarrow> rat option" where
  "is_day_or_default row =
     (case row ''is_day ()'' of None \<Rightarrow> Some 1 | Some c \<Rightarrow> measurement (Some c))"

definition weather_label_by_rules :: "row \<Rightarrow> string" where
  "weather_label_by_rules row = weather_rules ''Sandstorms''
      (measurement (row ''relative_humidity_2m (%)'')) (measurement (row ''cloud_cover_low (%)''))
      (measurement (row ''cloud_cover (%)'')) (measurement (row ''wind_speed_10m (km/h)''))
      (measurement (row ''precipitation (mm)'')) (is_day_or_default row)"

definition weather_labels :: "string list" where
  "weather_labels = [''Fog'', ''Stormy'', ''Sandstorms'', ''Windy'', ''Cloudy'', ''Sunny'']"

section \<open>mock/traffic_generator.py\<close>

text \<open>
  A \<open>datetime.time\<close>: Python compares two of them field by field, hour first.
\<close>

record pytime =
  hour :: nat
  minute :: nat
  second :: nat
  microsecond :: nat

definition time_le :: "pytime \<Rightarrow> pytime \<Rightarrow> bool" where
  "time_le a b =
     (hour a < hour b \<or> (hour a = hour b \<and>
       (minute a < minute b \<or> (minute a = minute b \<and>
         (second a < second b \<or> (second a = second b \<and> microsecond a \<le> microsecond b))))))"

text \<open>\<open>datetime.strptime("hh:mm:ss", "%H:%M:%S").time()\<close> for a literal.\<close>

definition hms :: "nat \<Rightarrow> nat \<Rightarrow> nat \<Rightarrow> pytime" where
  "hms h m s = \<lparr>hour = h, minute = m, second = s, microsecond = 0\<rparr>"

text \<open>\<open>Timestamp.time()\<close>: the time of day of a timestamp, to the microsecond.\<close>

definition timestamp_time :: "int \<Rightarrow> pytime" where
  "timestamp_time ts =
     (let us = nat ((ts mod 86400000000000) div 1000)
      in \<lparr>hour = us div 3600000000, minute = us div 60000000 mod 60,
          second = us div 1000000 mod 60, microsecond = us mod 1000000\<rparr>)"

text \<open>Lines 31 to 38 of \<open>_map_traffic\<close>: the bucket of a time of day.\<close>

definition traffic_bucket :: "pytime \<Rightarrow> string" where
  "traffic_bucket t =
     (if time_le (hms 7 0 0) t \<and> time_le t (hms 9 0 0) then ''High''
      else if time_le (hms 17 0 0) t \<and> time_le t (hms 19 0 0) then ''Jam''
      else if time_le (hms 22 0 0) t \<or> time_le t (hms 5 0 0) then ''Low''
      else ''Medium'')"

text \<open>
  \<open>_map_traffic\<close>. The library's \<open>datetime.strptime(s, "%m-%d %H:%M:%S").time()\<close> is the
  parameter \<open>strptime\<close>; \<open>None\<close> is any exception it raises, which the source catches.
  Only a \<open>Ts\<close> cell is a \<open>pd.Timestamp\<close>; the missing value is not.
\<close>

definition map_traffic :: "(string \<Rightarrow> pytime option) \<Rightarrow> cell \<Rightarrow> string" where
  "map_traffic strptime time_val =
     (case time_val of
        Str s \<Rightarrow> (case strptime s of None \<Rightarrow> ''Medium'' | Some t \<Rightarrow> traffic_bucket t)
      | Ts ts \<Rightarrow> traffic_bucket (timestamp_time ts)
      | _ \<Rightarrow> ''Medium'')"

text \<open>
  The buckets of the specification, over the microseconds elapsed since midnight;
  \<open>None\<close> is an input that is neither a timestamp nor a string in the pattern. The
  clock of an input, \<open>input_clock\<close>, is that of the time the library parses from a string,
  and for a timestamp its nanoseconds since the last midnight, in whole microseconds.
\<close>

definition micros :: "pytime \<Rightarrow> nat" where
  "micros t = ((hour t * 60 + minute t) * 60 + second t) * 1000000 + microsecond t"

definition clock :: "nat \<Rightarrow> nat" where
  "clock h = h * 3600000000"

definition traffic_by_time_of_day :: "nat option \<Rightarrow> string" where
  "traffic_by_time_of_day u =
     (case u of None \<Rightarrow> ''Medium''
      | Some t \<Rightarrow>
          if clock 7 \<le> t \<and> t \<le> clock 9 then ''High''
          else if clock 17 \<le> t \<and> t \<le> clock 19 then ''Jam''
          else if t \<ge> clock 22 \<or> t \<le> clock 5 then ''Low''
          else ''Medium'')"

definition input_clock :: "(string \<Rightarrow> pytime option) \<Rightarrow> cell \<Rightarrow> nat option" where
  "input_clock strptime v =
     (case v of
        Str s \<Rightarrow> map_option micros (strptime s)
      | Ts ts \<Rightarrow> Some (nat ((ts mod 86400000000000) div 1000))
      | _ \<Rightarrow> None)"

definition valid_time :: "pytime \<Rightarrow> bool" where
  "valid_time t = (hour t < 24 \<and> minute t < 60 \<and> second t < 60 \<and> microsecond t < 1000000)"

definition traffic_labels :: "string list" where
  "traffic_labels = [''Low'', ''Medium'', ''High'', ''Jam'']"

section \<open>Tables\<close>

text \<open>
  A pandas \<open>DataFrame\<close>: the column labels in order, and the rows in order, each with its
  index label and its cells by column label. A \<open>Series\<close> taken from a frame is the list of
  its cells in row order; all series in one function come from frames with one index, so
  pandas aligns them position by position. Column labels are taken to be distinct (pandas
  returns a frame, not a series, for a duplicated label); the first cell of a label counts.
\<close>

record dataframe =
  columns :: "string list"
  rows :: "(int \<times> (string \<times> cell) list) list"

text \<open>\<open>pd.DataFrame()\<close>, \<open>df.empty\<close> (an axis of length 0) and \<open>len(df)\<close>.\<close>

definition empty_frame :: dataframe where
  "empty_frame = \<lparr>columns = [], rows = []\<rparr>"

definition frame_empty :: "dataframe \<Rightarrow> bool" where
  "frame_empty df = (columns df = [] \<or> rows df = [])"

definition len :: "dataframe \<Rightarrow> nat" where
  "len df = length (rows df)"

definition index :: "dataframe \<Rightarrow> int list" where
  "index df = map fst (rows df)"

text \<open>The cell of a row under a label; a row without the label holds the missing value.\<close>

definition cell_at :: "(string \<times> cell) list \<Rightarrow> string \<Rightarrow> cell" where
  "cell_at r c = (case map_of r c of None \<Rightarrow> Null | Some v \<Rightarrow> v)"

definition series :: "dataframe \<Rightarrow> string \<Rightarrow> cell list" where
  "series df c = map (\<lambda>(i, r). cell_at r c) (rows df)"

text \<open>\<open>df[c]\<close> raises \<open>KeyError\<close> for a label that is no column; \<open>df.get(c, None)\<close> does not.\<close>

definition getitem :: "dataframe \<Rightarrow> string \<Rightarrow> error + cell list" where
  "getitem df c = (if c \<in> set (columns df) then Inr (series df c) else Inl KeyError)"

definition get_or_none :: "dataframe \<Rightarrow> string \<Rightarrow> cell list option" where
  "get_or_none df c = (if c \<in> set (columns df) then Some (series df c) else None)"

text \<open>\<open>df[c] = values\<close>: an existing column is overwritten in place, a new one is appended.\<close>

fun set_cell :: "string \<Rightarrow> cell \<Rightarrow> (string \<times> cell) list \<Rightarrow> (string \<times> cell) list" where
  "set_cell c v [] = [(c, v)]"
| "set_cell c v ((k, x) # r) = (if k = c then (k, v) # r else (k, x) # set_cell c v r)"

definition setitem :: "dataframe \<Rightarrow> string \<Rightarrow> cell list \<Rightarrow> dataframe" where
  "setitem df c vs =
     \<lparr>columns = (if c \<in> set (columns df) then columns df else columns df @ [c]),
      rows = map (\<lambda>((i, r), v). (i, set_cell c v r)) (zip (rows df) vs)\<rparr>"

text \<open>
  \<open>pd.DataFrame({label: values, ...})\<close> over series that share the index \<open>idx\<close>; the value
  \<open>None\<close> of a label is the scalar \<open>None\<close>, repeated for every row.
\<close>

definition DataFrame :: "int list \<Rightarrow> (string \<times> cell list option) list \<Rightarrow> dataframe" where
  "DataFrame idx data =
     foldl (\<lambda>df (c, col).
              setitem df c (case col of None \<Rightarrow> replicate (length idx) Null | Some vs \<Rightarrow> vs))
           \<lparr>columns = [], rows = map (\<lambda>i. (i, [])) idx\<rparr> data"

text \<open>
  \<open>pd.concat([df1, df2], ignore_index=True)\<close>: the columns of \<open>df1\<close>, then those of \<open>df2\<close>
  that \<open>df1\<close> lacks; the rows of \<open>df1\<close>, then those of \<open>df2\<close>, each laid out on these columns
  (a column the row's frame lacks holds the missing value), numbered from 0.
\<close>

definition reindex :: "string list \<Rightarrow> (string \<times> cell) list \<Rightarrow> (string \<times> cell) list" where
  "reindex cols r = map (\<lambda>c. (c, cell_at r c)) cols"

definition concat_ignore_index :: "dataframe \<Rightarrow> dataframe \<Rightarrow> dataframe" where
  "concat_ignore_index df1 df2 =
     (let cols = columns df1 @ filter (\<lambda>c. c \<notin> set (columns df1)) (columns df2)
      in \<lparr>columns = cols,
          rows = map (\<lambda>(j, (i, r)). (int j, reindex cols r))
                     (enumerate 0 (rows df1 @ rows df2))\<rparr>)"

text \<open>Sequencing of steps that may raise: the first error ends the function.\<close>

definition and_then :: "error + 'a \<Rightarrow> ('a \<Rightarrow> error + 'b) \<Rightarrow> error + 'b" where
  "and_then x f = (case x of Inl e \<Rightarrow> Inl e | Inr v \<Rightarrow> f v)"

section \<open>Library operations on cells\<close>

text \<open>
  \<open>pd.to_datetime(s, errors="coerce")\<close>, cell by cell: a timestamp and the missing value
  stay, every other cell goes through the library's parser \<open>parse\<close>, and what it cannot
  parse becomes the missing value.
\<close>

definition to_datetime :: "(cell \<Rightarrow> int option) \<Rightarrow> cell \<Rightarrow> cell" where
  "to_datetime parse c =
     (case c of Null \<Rightarrow> Null | Ts t \<Rightarrow> Ts t
      | _ \<Rightarrow> (case parse c of None \<Rightarrow> Null | Some t \<Rightarrow> Ts t))"

text \<open>\<open>.dt.date\<close> of a datetime cell.\<close>

definition dt_date :: "cell \<Rightarrow> cell" where
  "dt_date c = (case c of Ts t \<Rightarrow> Day (t div 86400000000000) | _ \<Rightarrow> Null)"

text \<open>\<open>a.fillna(b)\<close>, cell by cell.\<close>

definition fillna :: "cell \<Rightarrow> cell \<Rightarrow> cell" where
  "fillna a b = (if a = Null then b else a)"

text \<open>\<open>(d - p).dt.total_seconds() / 60\<close> of two datetime cells.\<close>

definition minutes_between :: "cell \<Rightarrow> cell \<Rightarrow> cell" where
  "minutes_between d p =
     (case (d, p) of (Ts x, Ts y) \<Rightarrow> Num (of_int (x - y) / 1000000000 / 60) | _ \<Rightarrow> Null)"

text \<open>
  \<open>s.astype(str)\<close>: a string stays; \<open>py_str\<close> is Python's \<open>str\<close> of any other cell.
\<close>

definition astype_str :: "(cell \<Rightarrow> string) \<Rightarrow> cell \<Rightarrow> string" where
  "astype_str py_str c = (case c of Str s \<Rightarrow> s | _ \<Rightarrow> py_str c)"

text \<open>\<open>left + right\<close> for a string \<open>left\<close>: only a string can be appended.\<close>

definition str_add :: "string \<Rightarrow> cell \<Rightarrow> error + cell" where
  "str_add left right = (case right of Str s \<Rightarrow> Inr (Str (left @ s)) | _ \<Rightarrow> Inl TypeError)"

text \<open>
  \<open>pd.to_timedelta(s, unit="m")\<close>, cell by cell, in nanoseconds: \<open>None\<close> is NaT. The
  library's conversion of a number of nanoseconds to an integer is the parameter \<open>to_ns\<close>.
  A string raises \<open>ValueError\<close> (a unit was given).
\<close>

definition to_timedelta_minutes :: "(rat \<Rightarrow> int) \<Rightarrow> cell \<Rightarrow> error + int option" where
  "to_timedelta_minutes to_ns c =
     (case c of Num x \<Rightarrow> Inr (Some (to_ns (x * 60000000000)))
      | Null \<Rightarrow> Inr None
      | Str s \<Rightarrow> Inl ValueError
      | _ \<Rightarrow> Inl TypeError)"

text \<open>\<open>timestamp + timedelta\<close>, with NaT absorbing.\<close>

definition add_timedelta :: "cell \<Rightarrow> int option \<Rightarrow> cell" where
  "add_timedelta p d = (case (p, d) of (Ts t, Some n) \<Rightarrow> Ts (t + n) | _ \<Rightarrow> Null)"

text \<open>A step applied to every cell of a series; the first cell that raises ends it.\<close>

fun each :: "('a \<Rightarrow> error + 'b) \<Rightarrow> 'a list \<Rightarrow> error + 'b list" where
  "each f [] = Inr []"
| "each f (x # xs) =
     (case f x of Inl e \<Rightarrow> Inl e
      | Inr y \<Rightarrow> (case each f xs of Inl e \<Rightarrow> Inl e | Inr ys \<Rightarrow> Inr (y # ys)))"

section \<open>data_transformation.py\<close>

text \<open>
  \<open>DataAligner.transform_delivery_dataset\<close>. The printing is left out, and \<open>copy()\<close> is the
  identity of a value.
\<close>

definition transform_delivery_dataset :: "(cell \<Rightarrow> int option) \<Rightarrow> dataframe \<Rightarrow> error + dataframe" where
  "transform_delivery_dataset parse enriched_df =
    (let df1 = enriched_df in
     if frame_empty df1 then Inr empty_frame
     else
       and_then (getitem df1 ''accept_time'') (\<lambda>a.
       let df1 = setitem df1 ''accept_time'' (map (to_datetime parse) a) in
       and_then (getitem df1 ''delivery_time'') (\<lambda>d.
       let df1 = setitem df1 ''delivery_time'' (map (to_datetime parse) d) in
       and_then (getitem df1 ''accept_time'') (\<lambda>pickup_datetime1.
       and_then (getitem df1 ''order_id'') (\<lambda>order_id.
       and_then (getitem df1 ''delivery_time'') (\<lambda>delivery_time.
       and_then (getitem df1 ''accept_gps_lat'') (\<lambda>accept_gps_lat.
       and_then (getitem df1 ''lat'') (\<lambda>lat.
       and_then (getitem df1 ''accept_gps_lng'') (\<lambda>accept_gps_lng.
       and_then (getitem df1 ''lng'') (\<lambda>lng.
       and_then (getitem df1 ''delivery_gps_lat'') (\<lambda>delivery_gps_lat.
       and_then (getitem df1 ''delivery_gps_lng'') (\<lambda>delivery_gps_lng.
       let df1_reshaped = DataFrame (index df1)
             [(''order_id'', Some order_id),
              (''Date'', Some (map dt_date pickup_datetime1)),
              (''pickup_time'', Some pickup_datetime1),
              (''delivery_time'', Some delivery_time),
              (''pickup_lat'', Some (map2 fillna accept_gps_lat lat)),
              (''pickup_lng'', Some (map2 fillna accept_gps_lng lng)),
              (''drop_lat'', Some delivery_gps_lat),
              (''drop_lng'', Some delivery_gps_lng),
              (''weather'', get_or_none df1 ''Weather_Label''),
              (''traffic'', get_or_none df1 ''Traffic_Label'')] in
       and_then (getitem df1_reshaped ''delivery_time'') (\<lambda>delivery.
       and_then (getitem df1_reshaped ''pickup_time'') (\<lambda>pickup.
       Inr (setitem df1_reshaped ''ETA_target'' (map2 minutes_between delivery pickup))
       ))))))))))))))"

text \<open>\<open>DataAligner.transform_amazon_dataset\<close>.\<close>

definition transform_amazon_dataset ::
  "(cell \<Rightarrow> int option) \<Rightarrow> (cell \<Rightarrow> string) \<Rightarrow> (rat \<Rightarrow> int) \<Rightarrow> dataframe \<Rightarrow> error + dataframe" where
  "transform_amazon_dataset parse py_str to_ns amazon_df =
    (let df2 = amazon_df in
     if frame_empty df2 then Inr empty_frame
     else
       and_then (getitem df2 ''Order_Date'') (\<lambda>order_date.
       and_then (getitem df2 ''Order_Time'') (\<lambda>order_time.
       and_then (each (\<lambda>(d, t). str_add (astype_str py_str d @ '' '') (fillna t (Str ''00:00:00'')))
                   (zip order_date order_time)) (\<lambda>combined.
       let pickup_datetime = map (to_datetime parse) combined in
       and_then (getitem df2 ''Delivery_Time'') (\<lambda>minutes.
       and_then (each (to_timedelta_minutes to_ns) minutes) (\<lambda>timedelta.
       let delivery_datetime = map2 add_timedelta pickup_datetime timedelta in
       and_then (getitem df2 ''Order_ID'') (\<lambda>order_id.
       and_then (getitem df2 ''Order_Date'') (\<lambda>date.
       and_then (getitem df2 ''Store_Latitude'') (\<lambda>store_latitude.
       and_then (getitem df2 ''Store_Longitude'') (\<lambda>store_longitude.
       and_then (getitem df2 ''Drop_Latitude'') (\<lambda>drop_latitude.
       and_then (getitem df2 ''Drop_Longitude'') (\<lambda>drop_longitude.
       and_then (getitem df2 ''Traffic'') (\<lambda>traffic.
       let df2_reshaped = DataFrame (index df2)
             [(''order_id'', Some order_id),
              (''Date'', Some date),
              (''pickup_time'', Some pickup_datetime),
              (''delivery_time'', Some delivery_datetime),
              (''pickup_lat'', Some store_latitude),
              (''pickup_lng'', Some store_longitude),
              (''drop_lat'', Some drop_latitude),
              (''drop_lng'', Some drop_longitude),
              (''traffic'', Some traffic),
              (''weather'', None)] in
       and_then (getitem df2_reshaped ''delivery_time'') (\<lambda>delivery.
       and_then (getitem df2_reshaped ''pickup_time'') (\<lambda>pickup.
       Inr (setitem df2_reshaped ''ETA_target'' (map2 minutes_between delivery pickup))
       )))))))))))))))"

text \<open>\<open>DataAligner.align\<close>.\<close>

definition align ::
  "(cell \<Rightarrow> int option) \<Rightarrow> (cell \<Rightarrow> string) \<Rightarrow> (rat \<Rightarrow> int) \<Rightarrow> dataframe \<Rightarrow> dataframe
   \<Rightarrow> error + dataframe" where
  "align parse py_str to_ns enriched_df amazon_df =
     and_then (transform_delivery_dataset parse enriched_df) (\<lambda>df1.
     and_then (transform_amazon_dataset parse py_str to_ns amazon_df) (\<lambda>df2.
       if frame_empty df1 \<and> frame_empty df2 then Inr empty_frame
       else if frame_empty df1 then Inr df2
       else if frame_empty df2 then Inr df1
       else Inr (concat_ignore_index df1 df2)))"

text \<open>The columns of the canonical table, in the order of the specification.\<close>

definition canonical_columns :: "string list" where
  "canonical_columns = [''order_id'', ''Date'', ''pickup_time'', ''delivery_time'', ''pickup_lat'',
     ''pickup_lng'', ''drop_lat'', ''drop_lng'', ''weather'', ''traffic'', ''ETA_target'']"

text \<open>The columns \<open>transform_delivery_dataset\<close> reads with \<open>df[...]\<close>.\<close>

definition delivery_required :: "string list" where
  "delivery_required = [''order_id'', ''accept_time'', ''delivery_time'', ''accept_gps_lat'',
     ''accept_gps_lng'', ''lat'', ''lng'', ''delivery_gps_lat'', ''delivery_gps_lng'']"

section \<open>Library operations on tables\<close>

text \<open>
  \<open>columns.str.strip().str.lower()\<close> on one label: white space is cut off both ends and
  the letters A to Z become small (labels are taken to be ASCII).
\<close>

definition is_space :: "char \<Rightarrow> bool" where
  "is_space c = (c \<in> set [CHR '' '', CHR 0x09, CHR 0x0A, CHR 0x0B, CHR 0x0C, CHR 0x0D])"

definition strip :: "string \<Rightarrow> string" where
  "strip s = rev (dropWhile is_space (rev (dropWhile is_space s)))"

definition lower_char :: "char \<Rightarrow> char" where
  "lower_char c =
     (case map_of (zip ''ABCDEFGHIJKLMNOPQRSTUVWXYZ'' ''abcdefghijklmnopqrstuvwxyz'') c of
        None \<Rightarrow> c | Some l \<Rightarrow> l)"

definition normalize_label :: "string \<Rightarrow> string" where
  "normalize_label s = map lower_char (strip s)"

text \<open>Relabelling of the columns of a frame.\<close>

definition rename_columns :: "(string \<Rightarrow> string) \<Rightarrow> dataframe \<Rightarrow> dataframe" where
  "rename_columns f df =
     \<lparr>columns = map f (columns df),
      rows = map (\<lambda>(i, r). (i, map (\<lambda>(c, v). (f c, v)) r)) (rows df)\<rparr>"

text \<open>\<open>df.dropna(subset=[c])\<close>: the rows whose cell under \<open>c\<close> is not missing.\<close>

definition dropna :: "string \<Rightarrow> dataframe \<Rightarrow> error + dataframe" where
  "dropna c df =
     (if c \<in> set (columns df)
      then Inr (df\<lparr>rows := filter (\<lambda>(i, r). cell_at r c \<noteq> Null) (rows df)\<rparr>)
      else Inl KeyError)"

text \<open>
  \<open>df.sort_values(c)\<close> on a datetime column without missing values: ascending by the
  timestamp (rows with equal timestamps are kept in their order).
\<close>

definition ts_key :: "cell \<Rightarrow> int" where
  "ts_key c = (case c of Ts t \<Rightarrow> t | _ \<Rightarrow> 0)"

definition sort_values :: "string \<Rightarrow> dataframe \<Rightarrow> error + dataframe" where
  "sort_values c df =
     (if c \<in> set (columns df)
      then Inr (df\<lparr>rows := sort_key (\<lambda>(i, r). ts_key (cell_at r c)) (rows df)\<rparr>)
      else Inl KeyError)"

text \<open>
  \<open>pd.merge_asof(left, right, left_on=..., right_on=..., direction="backward")\<close> on frames
  sorted by their keys: every left row, in order, joined with the last right row whose key
  is at most its own, or with missing values in every right column when there is none. A
  label that both frames have gets the suffix \<open>_x\<close> on the left and \<open>_y\<close> on the right. The
  result is numbered from 0.
\<close>

definition last_at_most :: "int \<Rightarrow> string \<Rightarrow> (int \<times> (string \<times> cell) list) list
    \<Rightarrow> (string \<times> cell) list option" where
  "last_at_most a right_on rs =
     (case filter (\<lambda>(i, w). ts_key (cell_at w right_on) \<le> a) rs of
        [] \<Rightarrow> None | ws \<Rightarrow> Some (snd (last ws)))"

definition merge_asof_backward :: "dataframe \<Rightarrow> dataframe \<Rightarrow> string \<Rightarrow> string \<Rightarrow> dataframe" where
  "merge_asof_backward left right left_on right_on =
     (let lname = (\<lambda>c. if c \<in> set (columns right) then c @ ''_x'' else c);
          rname = (\<lambda>c. if c \<in> set (columns left) then c @ ''_y'' else c)
      in \<lparr>columns = map lname (columns left) @ map rname (columns right),
          rows = map (\<lambda>(j, (i, l)).
                   (int j,
                    map (\<lambda>c. (lname c, cell_at l c)) (columns left) @
                    map (\<lambda>c. (rname c,
                          case last_at_most (ts_key (cell_at l left_on)) right_on (rows right) of
                            None \<Rightarrow> Null | Some w \<Rightarrow> cell_at w c))
                        (columns right)))
                 (enumerate 0 (rows left))\<rparr>)"

section \<open>mock/traffic_generator.py: generate\<close>

text \<open>\<open>TrafficMockGenerator.generate\<close>.\<close>

definition generate :: "(string \<Rightarrow> pytime option) \<Rightarrow> dataframe \<Rightarrow> error + dataframe" where
  "generate strptime df =
     and_then (getitem df ''delivery_time'') (\<lambda>delivery_time.
       Inr (setitem df ''Traffic_Label'' (map (\<lambda>v. Str (map_traffic strptime v)) delivery_time)))"

section \<open>data_ingest.py\<close>

text \<open>
  The files: a path is mapped to the table \<open>pd.read_csv\<close> reads from it, \<open>None\<close> when the
  path does not exist. A \<open>DataIngest\<close> object after \<open>__init__\<close>, which is \<open>load_data\<close>:
\<close>

record data_ingest =
  delivery_df :: dataframe
  weather_df :: dataframe
  weather_time_col :: string

definition time_candidates :: "string list" where
  "time_candidates = [''time_weather'', ''timestamp'', ''datetime'', ''time'', ''weather_time'']"

definition load_data ::
  "(cell \<Rightarrow> int option) \<Rightarrow> (string \<rightharpoonup> dataframe) \<Rightarrow> string \<Rightarrow> string \<Rightarrow> error + data_ingest" where
  "load_data parse files delivery_file weather_file =
     (case files delivery_file of None \<Rightarrow> Inl FileNotFoundError
      | Some delivery \<Rightarrow>
     (case files weather_file of None \<Rightarrow> Inl FileNotFoundError
      | Some weather \<Rightarrow>
        let delivery_df = rename_columns normalize_label delivery;
            weather_df = rename_columns normalize_label weather
        in if ''accept_time'' \<in> set (columns delivery_df) then
             let delivery_df = setitem delivery_df ''accept_time''
                   (map (to_datetime parse) (series delivery_df ''accept_time''));
                 delivery_df =
                   (if ''delivery_time'' \<in> set (columns delivery_df)
                    then setitem delivery_df ''delivery_time''
                           (map (to_datetime parse) (series delivery_df ''delivery_time''))
                    else delivery_df)
             in (case find (\<lambda>c. c \<in> set (columns weather_df)) time_candidates of
                   None \<Rightarrow> Inl KeyError
                 | Some col \<Rightarrow>
                     Inr \<lparr>delivery_df = delivery_df,
                          weather_df = setitem weather_df col
                            (map (to_datetime parse) (series weather_df col)),
                          weather_time_col = col\<rparr>)
           else Inl KeyError))"

text \<open>
  \<open>DataIngest.enrich_with_weather\<close>; the new object is returned, its \<open>delivery_df\<close> being
  the frame the method returns. Of the printing, only the read of
  \<open>merged['time_weather']\<close> is kept, which raises when there is no such column.
\<close>

definition enrich_with_weather :: "data_ingest \<Rightarrow> error + data_ingest" where
  "enrich_with_weather self =
     and_then (dropna ''accept_time'' (delivery_df self)) (\<lambda>delivery_clean.
     and_then (dropna (weather_time_col self) (weather_df self)) (\<lambda>weather_clean.
     and_then (sort_values ''accept_time'' delivery_clean) (\<lambda>delivery_clean.
     and_then (sort_values (weather_time_col self) weather_clean) (\<lambda>weather_clean.
     let merged = merge_asof_backward delivery_clean weather_clean
                    ''accept_time'' (weather_time_col self);
         merged = (if weather_time_col self \<noteq> ''time_weather''
                   then rename_columns
                          (\<lambda>c. if c = weather_time_col self then ''time_weather'' else c) merged
                   else merged)
     in and_then (getitem merged ''time_weather'') (\<lambda>time_weather.
        and_then (each (\<lambda>(i, r). generate_label (map_of r)) (rows merged)) (\<lambda>labels.
        Inr (self\<lparr>delivery_df := setitem merged ''Weather_Label'' (map Str labels)\<rparr>)))))))"

text \<open>\<open>DataIngest.enrich_with_traffic_and_vehicles\<close>.\<close>

definition enrich_with_traffic_and_vehicles ::
  "(string \<Rightarrow> pytime option) \<Rightarrow> data_ingest \<Rightarrow> error + data_ingest" where
  "enrich_with_traffic_and_vehicles strptime self =
     and_then (generate strptime (delivery_df self)) (\<lambda>df.
       Inr (self\<lparr>delivery_df := df\<rparr>))"

text \<open>The cell of the row at position \<open>j\<close> under the label \<open>c\<close>.\<close>

definition cell :: "dataframe \<Rightarrow> nat \<Rightarrow> string \<Rightarrow> cell" where
  "cell df j c = cell_at (snd (rows df ! j)) c"

text \<open>The value at position \<open>j\<close> of a column given to the \<open>DataFrame\<close> constructor.\<close>

definition col_val :: "cell list option \<Rightarrow> nat \<Rightarrow> cell" where
  "col_val col j = (case col of None \<Rightarrow> Null | Some vs \<Rightarrow> vs ! j)"

text \<open>The text of an order time: a missing order time reads as midnight.\<close>

definition order_time_text :: "cell \<Rightarrow> string" where
  "order_time_text c = (case c of Str s \<Rightarrow> s | _ \<Rightarrow> ''00:00:00'')"

text \<open>The columns in the order of the dictionary in \<open>transform_amazon_dataset\<close>.\<close>

definition external_columns :: "string list" where
  "external_columns = [''order_id'', ''Date'', ''pickup_time'', ''delivery_time'', ''pickup_lat'',
     ''pickup_lng'', ''drop_lat'', ''drop_lng'', ''traffic'', ''weather'', ''ETA_target'']"

subsection \<open>Example tables\<close>

text \<open>
  One local delivery without a weather label, one external-provider order (the scenario of
  the specification: 2025-02-01, 10:00:00, 45 minutes) and one external-provider order whose
  date is no date. \<open>parse_example\<close> is the library's parser on the texts that occur.
\<close>

definition enriched_example :: dataframe where
  "enriched_example =
     \<lparr>columns = [''order_id'', ''accept_time'', ''delivery_time'', ''accept_gps_lat'',
                 ''accept_gps_lng'', ''lat'', ''lng'', ''delivery_gps_lat'', ''delivery_gps_lng'',
                 ''Traffic_Label''],
      rows = [(7, [(''order_id'', Num 1), (''accept_time'', Str ''2025-01-01 08:00:00''),
                   (''delivery_time'', Ts 1735720200000000000), (''accept_gps_lat'', Null),
                   (''accept_gps_lng'', Num 120), (''lat'', Num 30), (''lng'', Num 121),
                   (''delivery_gps_lat'', Num 31), (''delivery_gps_lng'', Num 122),
                   (''Traffic_Label'', Str ''High'')])]\<rparr>"

definition amazon_example :: dataframe where
  "amazon_example =
     \<lparr>columns = [''Order_ID'', ''Order_Date'', ''Order_Time'', ''Delivery_Time'',
                 ''Store_Latitude'', ''Store_Longitude'', ''Drop_Latitude'', ''Drop_Longitude'',
                 ''Traffic''],
      rows = [(3, [(''Order_ID'', Str ''a1''), (''Order_Date'', Str ''2025-02-01''),
                   (''Order_Time'', Str ''10:00:00''), (''Delivery_Time'', Num 45),
                   (''Store_Latitude'', Num 12), (''Store_Longitude'', Num 77),
                   (''Drop_Latitude'', Num 13), (''Drop_Longitude'', Num 78),
                   (''Traffic'', Str ''High '')])]\<rparr>"

definition parse_example :: "cell \<Rightarrow> int option" where
  "parse_example c =
     (if c = Str ''2025-02-01 10:00:00'' then Some 1738404000000000000
      else if c = Str ''2025-01-01 08:00:00'' then Some 1735718400000000000
      else None)"


text \<open>The canonical tables the three examples are transformed to.\<close>

definition enriched_canonical_example :: dataframe where
  "enriched_canonical_example =
    \<lparr>columns = [''order_id'', ''Date'', ''pickup_time'', ''delivery_time'',
         ''pickup_lat'', ''pickup_lng'', ''drop_lat'', ''drop_lng'',
         ''weather'', ''traffic'', ''ETA_target''],
      rows = [(7, [(''order_id'', Num 1), (''Date'', Day 20089),
                (''pickup_time'', Ts 1735718400000000000),
                (''delivery_time'', Ts 1735720200000000000),
                (''pickup_lat'', Num 30), (''pickup_lng'', Num 120),
                (''drop_lat'', Num 31), (''drop_lng'', Num 122),
                (''weather'', Null), (''traffic'', Str ''High''),
                (''ETA_target'', Num 30)])]\<rparr>"

definition amazon_canonical_example :: dataframe where
  "amazon_canonical_example =
    \<lparr>columns = [''order_id'', ''Date'', ''pickup_time'', ''delivery_time'',
         ''pickup_lat'', ''pickup_lng'', ''drop_lat'', ''drop_lng'',
         ''traffic'', ''weather'', ''ETA_target''],
      rows = [(3, [(''order_id'', Str ''a1''), (''Date'', Str ''2025-02-01''),
                   (''pickup_time'', Ts 1738404000000000000),
                   (''delivery_time'', Ts 1738406700000000000),
                   (''pickup_lat'', Num 12), (''pickup_lng'', Num 77),
                   (''drop_lat'', Num 13), (''drop_lng'', Num 78),
                   (''traffic'', Str ''High ''), (''weather'', Null),
                   (''ETA_target'', Num 45)])]\<rparr>"


subsection \<open>The as-of join, read row by row\<close>

text \<open>
  The rows \<open>dropna(subset=[c]).sort_values(c)\<close> keeps of a table, the label a column of the
  merged table ends under (the weather time column is renamed to \<open>time_weather\<close>), and the
  row the backward as-of join builds from a delivery row: its own cells, then the cells of
  the last weather row at or before its acceptance time, nulls when there is none.
\<close>

definition clean_rows :: "string \<Rightarrow> dataframe \<Rightarrow> (int \<times> (string \<times> cell) list) list" where
  "clean_rows c df = sort_key (\<lambda>(i, r). ts_key (cell_at r c))
                       (filter (\<lambda>(i, r). cell_at r c \<noteq> Null) (rows df))"

definition to_time_weather :: "string \<Rightarrow> string \<Rightarrow> string" where
  "to_time_weather col c = (if c = col then ''time_weather'' else c)"

definition joined_row ::
  "data_ingest \<Rightarrow> (string \<times> cell) list \<Rightarrow> (string \<times> cell) list" where
  "joined_row self l =
     map (\<lambda>c. (to_time_weather (weather_time_col self) c, cell_at l c)) (columns (delivery_df self)) @
     map (\<lambda>c. (to_time_weather (weather_time_col self) c,
                case last_at_most (ts_key (cell_at l ''accept_time'')) (weather_time_col self)
                       (clean_rows (weather_time_col self) (weather_df self)) of
                  None \<Rightarrow> Null | Some w \<Rightarrow> cell_at w c))
         (columns (weather_df self))"



text \<open>Every measurement field of every row holds a number or the missing value.\<close>

definition numeric_frame :: "dataframe \<Rightarrow> bool" where
  "numeric_frame df =
     list_all (\<lambda>(i, r). list_all (\<lambda>k. numeric_cell (Some (cell_at r k))) weather_fields)
       (rows df)"

subsection \<open>Example files\<close>

text \<open>
  A delivery file with a padded, capitalised \<open>Accept_Time\<close> label, one acceptance time that is
  no time and no \<open>delivery_time\<close> column; a weather file whose observations are out of order.
  \<open>parse_times\<close> is the library's parser on the texts that occur; \<open>ingest_example\<close> is the
  state after \<open>load_data\<close> and \<open>enriched_weather_example\<close> the state after
  \<open>enrich_with_weather\<close>.
\<close>

definition delivery_file_example :: dataframe where
  "delivery_file_example =
     \<lparr>columns = ['' Accept_Time'', ''order_id''],
      rows = [(0, [('' Accept_Time'', Str ''2025-01-01 08:30:00''), (''order_id'', Num 1)]),
              (1, [('' Accept_Time'', Str ''n/a''), (''order_id'', Num 2)]),
              (2, [('' Accept_Time'', Str ''2025-01-01 07:00:00''), (''order_id'', Num 3)])]\<rparr>"

definition weather_file_example :: dataframe where
  "weather_file_example =
     \<lparr>columns = [''time'', ''relative_humidity_2m (%)'', ''cloud_cover_low (%)'',
                 ''wind_speed_10m (km/h)''],
      rows = [(0, [(''time'', Str ''2025-01-01 09:00:00''), (''relative_humidity_2m (%)'', Num 50),
                   (''cloud_cover_low (%)'', Num 10), (''wind_speed_10m (km/h)'', Num 8)]),
              (1, [(''time'', Str ''2025-01-01 08:00:00''), (''relative_humidity_2m (%)'', Num 95),
                   (''cloud_cover_low (%)'', Num 85), (''wind_speed_10m (km/h)'', Num 1)])]\<rparr>"

definition files_example :: "string \<rightharpoonup> dataframe" where
  "files_example = [''delivery.csv'' \<mapsto> delivery_file_example,
                    ''weather.csv'' \<mapsto> weather_file_example]"

definition parse_times :: "cell \<Rightarrow> int option" where
  "parse_times c =
     (if c = Str ''2025-01-01 07:00:00'' then Some 1735714800000000000
      else if c = Str ''2025-01-01 08:00:00'' then Some 1735718400000000000
      else if c = Str ''2025-01-01 08:30:00'' then Some 1735720200000000000
      else if c = Str ''2025-01-01 09:00:00'' then Some 1735722000000000000
      else None)"

definition ingest_example :: data_ingest where
  "ingest_example =
     \<lparr>delivery_df =
        \<lparr>columns = [''accept_time'', ''order_id''],
         rows = [(0, [(''accept_time'', Ts 1735720200000000000), (''order_id'', Num 1)]),
                 (1, [(''accept_time'', Null), (''order_id'', Num 2)]),
                 (2, [(''accept_time'', Ts 1735714800000000000), (''order_id'', Num 3)])]\<rparr>,
      weather_df =
        \<lparr>columns = [''time'', ''relative_humidity_2m (%)'', ''cloud_cover_low (%)'',
                    ''wind_speed_10m (km/h)''],
         rows = [(0, [(''time'', Ts 1735722000000000000), (''relative_humidity_2m (%)'', Num 50),
                      (''cloud_cover_low (%)'', Num 10), (''wind_speed_10m (km/h)'', Num 8)]),
                 (1, [(''time'', Ts 1735718400000000000), (''relative_humidity_2m (%)'', Num 95),
                      (''cloud_cover_low (%)'', Num 85), (''wind_speed_10m (km/h)'', Num 1)])]\<rparr>,
      weather_time_col = ''time''\<rparr>"

definition enriched_weather_example :: data_ingest where
  "enriched_weather_example =
     ingest_example\<lparr>delivery_df :=
        \<lparr>columns = [''accept_time'', ''order_id'', ''time_weather'',
            ''relative_humidity_2m (%)'', ''cloud_cover_low (%)'',
            ''wind_speed_10m (km/h)'', ''Weather_Label''],
         rows = [(0, [(''accept_time'', Ts 1735714800000000000),
                   (''order_id'', Num 3), (''time_weather'', Null),
                   (''relative_humidity_2m (%)'', Null),
                   (''cloud_cover_low (%)'', Null),
                   (''wind_speed_10m (km/h)'', Null),
                   (''Weather_Label'', Str ''Cloudy'')]),
                 (1, [(''accept_time'', Ts 1735720200000000000),
                   (''order_id'', Num 1),
                   (''time_weather'', Ts 1735718400000000000),
                   (''relative_humidity_2m (%)'', Num 95),
                   (''cloud_cover_low (%)'', Num 85),
                   (''wind_speed_10m (km/h)'', Num 1),
                   (''Weather_Label'', Str ''Fog'')])]\<rparr>\<rparr>"

section \<open>Properties of the weather classifier\<close>

lemma rule_eq:
  assumes "guard \<Longrightarrow> cond = Inr b" and "\<not> guard \<Longrightarrow> \<not> b"
  shows "rule guard cond l rest = (if b then Inr l else rest)"
  using assms by (cases guard; cases b) (simp_all add: rule_def)

lemma compare_num_numeric:
  "numeric_cell v \<Longrightarrow> v \<noteq> None \<Longrightarrow>
   compare_num rel v c = Inr (holds (\<lambda>x. rel x c) (measurement v))"
  by (cases "(rel, v, c)" rule: compare_num.cases) simp_all

lemma eq_num_numeric:
  "numeric_cell v \<Longrightarrow> eq_num v c = Inr (holds (\<lambda>x. x = c) (measurement v))"
  by (cases "(v, c)" rule: eq_num.cases) simp_all

lemma and_also_Inr [simp]: "and_also (Inr a) (Inr b) = Inr (a \<and> b)"
  by (cases a) simp_all

lemma not_truthy_numeric:
  "\<not> truthy v \<Longrightarrow> numeric_cell v \<Longrightarrow> measurement v = None \<or> measurement v = Some 0"
  by (cases v rule: truthy.cases) simp_all

lemma truthy_not_None: "truthy v \<Longrightarrow> v \<noteq> None"
  by (cases v) auto

lemma holds_conj: "holds (\<lambda>x. p x \<and> q x) v = (holds p v \<and> holds q v)"
  by (cases v) simp_all

text \<open>On a row whose measurement fields are numbers, the code computes the rule list.\<close>

lemma generate_label_rules:
  assumes "numeric_row row"
  shows "generate_label row = Inr (weather_label_by_rules row)"
proof -
  let ?rh = "row ''relative_humidity_2m (%)''" and ?cl = "row ''cloud_cover_low (%)''"
  and ?ct = "row ''cloud_cover (%)''" and ?ws = "row ''wind_speed_10m (km/h)''"
  and ?pr = "row ''precipitation (mm)''"
  let ?id = "case row ''is_day ()'' of None \<Rightarrow> Some (Num 1) | Some c \<Rightarrow> Some c"
  from assms have n: "numeric_cell ?rh" "numeric_cell ?cl" "numeric_cell ?ct" "numeric_cell ?ws"
    "numeric_cell ?pr" "numeric_cell (row ''is_day ()'')"
    by (simp_all add: numeric_row_def weather_fields_def)
  have nid: "numeric_cell ?id" "measurement ?id = is_day_or_default row"
    using n(6) by (auto simp: is_day_or_default_def split: option.splits)
  have r1: "rule (truthy ?rh \<and> truthy ?cl \<and> ?ws \<noteq> None)
            (and_also (gt ?rh 90) (and_also (gt ?cl 80) (lt ?ws 2))) l rest =
        (if holds (\<lambda>x. x > 90) (measurement ?rh) \<and> holds (\<lambda>x. x > 80) (measurement ?cl)
            \<and> holds (\<lambda>x. x < 2) (measurement ?ws) then Inr l else rest)" for l rest
    apply (rule rule_eq)
    using n not_truthy_numeric[of ?rh] not_truthy_numeric[of ?cl]
    by (auto simp: gt_def lt_def compare_num_numeric truthy_not_None)
  have r2: "rule (truthy ?ws \<and> ?pr \<noteq> None) (and_also (gt ?ws 12) (gt ?pr 2)) l rest =
        (if holds (\<lambda>x. x > 12) (measurement ?ws) \<and> holds (\<lambda>x. x > 2) (measurement ?pr)
           then Inr l else rest)" for l rest
    apply (rule rule_eq)
    using n not_truthy_numeric[of ?ws]
    by (auto simp: gt_def lt_def compare_num_numeric truthy_not_None)
  have r3: "rule (truthy ?ws \<and> ?pr \<noteq> None \<and> ?rh \<noteq> None)
            (and_also (gt ?ws 10) (and_also (lt ?pr (1/10)) (lt ?rh 40))) l rest =
        (if holds (\<lambda>x. x > 10) (measurement ?ws) \<and> holds (\<lambda>x. x < 1/10) (measurement ?pr)
              \<and> holds (\<lambda>x. x < 40) (measurement ?rh) then Inr l else rest)" for l rest
    apply (rule rule_eq)
    using n not_truthy_numeric[of ?ws]
    by (auto simp: gt_def lt_def compare_num_numeric truthy_not_None)
  have r4: "rule (truthy ?ws \<and> ?pr \<noteq> None)
            (and_also (and_also (ge ?ws 6) (le ?ws 12)) (lt ?pr 1)) l rest =
        (if holds (\<lambda>x. 6 \<le> x \<and> x \<le> 12) (measurement ?ws) \<and> holds (\<lambda>x. x < 1) (measurement ?pr)
           then Inr l else rest)" for l rest
    apply (rule rule_eq)
    using n not_truthy_numeric[of ?ws]
    by (auto simp: ge_def le_def lt_def compare_num_numeric truthy_not_None holds_conj)
  have r5: "rule (truthy ?ct \<and> ?pr \<noteq> None)
            (and_also (gt ?ct 70) (lt ?pr 1)) l rest =
        (if holds (\<lambda>x. x > 70) (measurement ?ct) \<and> holds (\<lambda>x. x < 1) (measurement ?pr)
           then Inr l else rest)" for l rest
    apply (rule rule_eq)
    using n not_truthy_numeric[of ?ct]
    by (auto simp: gt_def lt_def compare_num_numeric truthy_not_None)
  have r6: "rule (?ct \<noteq> None \<and> ?id \<noteq> None)
            (and_also (lt ?ct 30) (eq_num ?id 1)) l rest =
        (if holds (\<lambda>x. x < 30) (measurement ?ct) \<and> holds (\<lambda>x. x = 1) (is_day_or_default row)
           then Inr l else rest)" for l rest
    apply (rule rule_eq)
    using n nid
    by (auto simp: lt_def compare_num_numeric eq_num_numeric split: option.splits)
  show ?thesis
    unfolding generate_label_def Let_def r1 r2 r3 r4 r5 r6 weather_label_by_rules_def
      weather_rules_def by simp
qed

lemma weather_rules_labels: "weather_label_by_rules row \<in> set weather_labels"
  by (simp add: weather_label_by_rules_def weather_rules_def weather_labels_def)

text \<open>
  Claim C2, as stated: for every record the classifier returns one of Fog, Stormy,
  Sandstorm, Windy, Cloudy, Sunny. It does not: for wind speed 11, no precipitation and
  humidity 30 the code returns the label Sandstorms, which is none of the six.
\<close>

theorem generate_label_outside_specified_labels:
  "numeric_row [''wind_speed_10m (km/h)'' \<mapsto> Num 11, ''precipitation (mm)'' \<mapsto> Num 0,
                ''relative_humidity_2m (%)'' \<mapsto> Num 30]
   \<and> generate_label [''wind_speed_10m (km/h)'' \<mapsto> Num 11, ''precipitation (mm)'' \<mapsto> Num 0,
                     ''relative_humidity_2m (%)'' \<mapsto> Num 30] = Inr ''Sandstorms''
   \<and> ''Sandstorms'' \<notin> set specified_weather_labels"
  by (simp add: generate_label_def rule_def gt_def lt_def numeric_row_def weather_fields_def
      specified_weather_labels_def)

text \<open>
  Claim C2, amended: for every record whose measurement fields, where present, hold a
  number or the missing value, the classifier raises nothing and returns one of Fog,
  Stormy, Sandstorms, Windy, Cloudy, Sunny.
\<close>

theorem generate_label_total:
  "numeric_row row \<Longrightarrow> \<exists>l. l \<in> set weather_labels \<and> generate_label row = Inr l"
  by (simp add: generate_label_rules weather_rules_labels)

theorem generate_label_total_witness:
  "numeric_row [''relative_humidity_2m (%)'' \<mapsto> Num 95, ''cloud_cover_low (%)'' \<mapsto> Num 85,
                ''wind_speed_10m (km/h)'' \<mapsto> Num 1]
   \<and> (\<exists>l. l \<in> set weather_labels \<and>
        generate_label [''relative_humidity_2m (%)'' \<mapsto> Num 95, ''cloud_cover_low (%)'' \<mapsto> Num 85,
                        ''wind_speed_10m (km/h)'' \<mapsto> Num 1] = Inr l)"
proof -
  have n: "numeric_row [''relative_humidity_2m (%)'' \<mapsto> Num 95, ''cloud_cover_low (%)'' \<mapsto> Num 85,
                ''wind_speed_10m (km/h)'' \<mapsto> Num 1]"
    by (simp add: numeric_row_def weather_fields_def)
  show ?thesis using n generate_label_total [OF n] by simp
qed

text \<open>
  Claim C3, as stated: the rules are tried in the order Fog, Stormy, Sandstorm, Windy,
  Cloudy, Sunny and a rule with a missing operand is skipped. It fails for the last rule:
  a record with total cloud cover 10 and no day indicator is labelled Sunny by the code,
  where the rule list with the Sunny rule skipped gives the default Cloudy.
\<close>

theorem generate_label_missing_is_day:
  "numeric_row [''cloud_cover (%)'' \<mapsto> Num 10]
   \<and> generate_label [''cloud_cover (%)'' \<mapsto> Num 10] = Inr ''Sunny''
   \<and> specified_weather_label [''cloud_cover (%)'' \<mapsto> Num 10] = ''Cloudy''"
  by (simp add: generate_label_def rule_def gt_def lt_def numeric_row_def weather_fields_def
      specified_weather_label_def weather_rules_def)

text \<open>
  Claim C3, amended: on every record whose measurement fields hold numbers or are missing,
  the classifier returns the label of the first rule that applies, in the order Fog, Stormy,
  Sandstorms, Windy, Cloudy, Sunny with the stated thresholds, and Cloudy if none applies; a
  rule with a missing operand does not apply, except that a record with no day-indicator
  field is treated as daytime (indicator 1).
\<close>

theorem generate_label_first_matching_rule:
  "numeric_row row \<Longrightarrow> generate_label row = Inr (weather_label_by_rules row)"
  by (rule generate_label_rules)

theorem generate_label_first_matching_rule_witness:
  "numeric_row [''wind_speed_10m (km/h)'' \<mapsto> Num 11, ''precipitation (mm)'' \<mapsto> Num 0,
                ''relative_humidity_2m (%)'' \<mapsto> Num 30]
   \<and> generate_label [''wind_speed_10m (km/h)'' \<mapsto> Num 11, ''precipitation (mm)'' \<mapsto> Num 0,
                     ''relative_humidity_2m (%)'' \<mapsto> Num 30]
     = Inr (weather_label_by_rules [''wind_speed_10m (km/h)'' \<mapsto> Num 11,
              ''precipitation (mm)'' \<mapsto> Num 0, ''relative_humidity_2m (%)'' \<mapsto> Num 30])
   \<and> weather_label_by_rules [''wind_speed_10m (km/h)'' \<mapsto> Num 11,
              ''precipitation (mm)'' \<mapsto> Num 0, ''relative_humidity_2m (%)'' \<mapsto> Num 30]
     = ''Sandstorms''"
proof -
  have n: "numeric_row [''wind_speed_10m (km/h)'' \<mapsto> Num 11, ''precipitation (mm)'' \<mapsto> Num 0,
                ''relative_humidity_2m (%)'' \<mapsto> Num 30]"
    by (simp add: numeric_row_def weather_fields_def)
  show ?thesis using n generate_label_first_matching_rule [OF n]
    by (simp add: weather_label_by_rules_def weather_rules_def is_day_or_default_def)
qed

text \<open>
  The two instances claim C3 names. Humidity exactly 90, low cloud cover exactly 80 and
  wind speed exactly 2 is not Fog, whatever the other fields hold; and a record that meets
  the Stormy condition is Stormy.
\<close>

lemma boundary_is_not_fog:
  assumes "numeric_row row" and "row ''relative_humidity_2m (%)'' = Some (Num 90)"
    and "row ''cloud_cover_low (%)'' = Some (Num 80)"
    and "row ''wind_speed_10m (km/h)'' = Some (Num 2)"
  shows "generate_label row \<noteq> Inr ''Fog''"
  using assms
  by (simp add: generate_label_rules weather_label_by_rules_def weather_rules_def)

lemma stormy_before_windy:
  assumes "numeric_row row" and "row ''wind_speed_10m (km/h)'' = Some (Num w)" and "w > 12"
    and "row ''precipitation (mm)'' = Some (Num p)" and "p > 2"
  shows "generate_label row = Inr ''Stormy''"
  using assms
  by (simp add: generate_label_rules weather_label_by_rules_def weather_rules_def)

section \<open>Properties of the traffic classifier\<close>

text \<open>The fields of \<open>timestamp_time\<close> add up to the microseconds since midnight.\<close>

lemma split_clock:
  fixes u :: nat
  shows "((u div 3600000000 * 60 + u div 60000000 mod 60) * 60 + u div 1000000 mod 60) * 1000000
          + u mod 1000000 = u"
proof -
  have a: "u div 60000000 = (u div 1000000) div 60" by (simp add: div_mult2_eq)
  have b: "u div 3600000000 = (u div 1000000) div 60 div 60" by (simp add: div_mult2_eq)
  define s where "s = u div 1000000"
  define m where "m = s div 60"
  have "((m div 60 * 60 + m mod 60) * 60 + s mod 60) * 1000000 + u mod 1000000 = u"
    by (simp add: m_def s_def)
  then show ?thesis by (simp add: a b m_def s_def)
qed

lemma micros_timestamp_time:
  "micros (timestamp_time ts) = nat ((ts mod 86400000000000) div 1000)"
  unfolding micros_def timestamp_time_def Let_def pytime.select_convs by (rule split_clock)

lemma valid_timestamp_time: "valid_time (timestamp_time ts)"
proof -
  have "ts mod 86400000000000 < 86400000000000" by simp
  then have "nat ((ts mod 86400000000000) div 1000) < 86400000000" by linarith
  then have "nat ((ts mod 86400000000000) div 1000) div 3600000000 < 24" by linarith
  then show ?thesis
    unfolding valid_time_def timestamp_time_def Let_def by simp
qed

text \<open>On valid times, the field-by-field comparison is the comparison of the clock.\<close>

lemma time_le_micros:
  "valid_time a \<Longrightarrow> valid_time b \<Longrightarrow> time_le a b \<longleftrightarrow> micros a \<le> micros b"
  unfolding valid_time_def time_le_def micros_def
  by (cases a; cases b) auto

lemma micros_hms: "micros (hms h 0 0) = clock h"
  by (simp add: micros_def hms_def clock_def)

lemma valid_hms: "h < 24 \<Longrightarrow> valid_time (hms h 0 0)"
  by (simp add: valid_time_def hms_def)

lemma traffic_bucket_spec:
  "valid_time t \<Longrightarrow> traffic_bucket t = traffic_by_time_of_day (Some (micros t))"
  by (simp add: traffic_bucket_def traffic_by_time_of_day_def time_le_micros valid_hms
      micros_hms)

lemma map_traffic_spec:
  assumes "\<And>s t. strptime s = Some t \<Longrightarrow> valid_time t"
  shows "map_traffic strptime v = traffic_by_time_of_day (input_clock strptime v)"
proof (cases v)
  case (Str s)
  then show ?thesis
    using assms[of s]
    by (cases "strptime s")
       (simp_all add: map_traffic_def input_clock_def traffic_bucket_spec
          traffic_by_time_of_day_def)
next
  case (Ts ts)
  then show ?thesis
    by (simp add: map_traffic_def input_clock_def traffic_bucket_spec valid_timestamp_time
        micros_timestamp_time)
qed (simp_all add: map_traffic_def input_clock_def traffic_by_time_of_day_def)

lemma map_traffic_labels: "map_traffic strptime v \<in> set traffic_labels"
  by (cases v)
    (auto simp: map_traffic_def traffic_bucket_def traffic_labels_def split: option.splits)

text \<open>
  Claim C4: the traffic classifier returns, for any input value, one of Low, Medium, High,
  Jam: High for a time of day from 07:00:00 to 09:00:00 (both ends included), else Jam from
  17:00:00 to 19:00:00, else Low from 22:00:00 on or up to 05:00:00, else Medium; and Medium
  for an input that is neither a timestamp nor a string in the pattern. The time of day of a
  timestamp is its microseconds since midnight; the library parser of strings is any
  function that returns valid times of day.
\<close>

theorem map_traffic_total_buckets:
  assumes "\<forall>s t. strptime s = Some t \<longrightarrow> valid_time t"
  shows "map_traffic strptime v \<in> set traffic_labels
         \<and> map_traffic strptime v = traffic_by_time_of_day (input_clock strptime v)"
  using assms map_traffic_spec [of strptime v] map_traffic_labels [of strptime v] by blast

theorem map_traffic_total_buckets_witness:
  "valid_time (hms 9 0 0)
   \<and> map_traffic (\<lambda>s. if s = ''01-01 09:00:00'' then Some (hms 9 0 0) else None)
        (Str ''01-01 09:00:00'') \<in> set traffic_labels
   \<and> input_clock (\<lambda>s. if s = ''01-01 09:00:00'' then Some (hms 9 0 0) else None)
        (Str ''01-01 09:00:00'') = Some (clock 9)
   \<and> map_traffic (\<lambda>s. if s = ''01-01 09:00:00'' then Some (hms 9 0 0) else None)
        (Str ''01-01 09:00:00'') = ''High''
   \<and> input_clock (\<lambda>s. if s = ''01-01 09:00:00'' then Some (hms 9 0 0) else None)
        (Ts 1735750800000000000) = Some (clock 17)
   \<and> map_traffic (\<lambda>s. if s = ''01-01 09:00:00'' then Some (hms 9 0 0) else None)
        (Ts 1735750800000000000) = ''Jam''
   \<and> input_clock (\<lambda>s. if s = ''01-01 09:00:00'' then Some (hms 9 0 0) else None)
        (Ts 1735758000000000001) = Some (clock 19)
   \<and> map_traffic (\<lambda>s. if s = ''01-01 09:00:00'' then Some (hms 9 0 0) else None)
        (Ts 1735758000000000001) = ''Jam''
   \<and> map_traffic (\<lambda>s. if s = ''01-01 09:00:00'' then Some (hms 9 0 0) else None)
        (Ts 1735758000000001000) = ''Medium''
   \<and> map_traffic (\<lambda>s. if s = ''01-01 09:00:00'' then Some (hms 9 0 0) else None)
        (Ts 1735693200000000000) = ''Low''
   \<and> map_traffic (\<lambda>s. if s = ''01-01 09:00:00'' then Some (hms 9 0 0) else None)
        Null = ''Medium''"
proof -
  let ?p = "\<lambda>s. if s = ''01-01 09:00:00'' then Some (hms 9 0 0) else None"
  have h: "\<forall>s t. ?p s = Some t \<longrightarrow> valid_time t"
    by (simp add: valid_time_def hms_def)
  have v: "valid_time (hms 9 0 0)"
    by (simp add: valid_time_def hms_def)
  have c: "input_clock ?p (Str ''01-01 09:00:00'') = Some (clock 9)"
    "input_clock ?p (Ts 1735750800000000000) = Some (clock 17)"
    "input_clock ?p (Ts 1735758000000000001) = Some (clock 19)"
    "input_clock ?p (Ts 1735758000000001000) = Some (clock 19 + 1)"
    "input_clock ?p (Ts 1735693200000000000) = Some (clock 1)"
    "input_clock ?p Null = None"
    by (simp_all add: input_clock_def micros_def hms_def clock_def)
  note t = map_traffic_total_buckets [OF h]
  have 1: "map_traffic ?p (Str ''01-01 09:00:00'') = ''High''"
    using t[of "Str ''01-01 09:00:00''"] by (simp add: c traffic_by_time_of_day_def clock_def)
  have 2: "map_traffic ?p (Ts 1735750800000000000) = ''Jam''"
    using t[of "Ts 1735750800000000000"] by (simp add: c traffic_by_time_of_day_def clock_def)
  have 3: "map_traffic ?p (Ts 1735758000000000001) = ''Jam''"
    using t[of "Ts 1735758000000000001"] by (simp add: c traffic_by_time_of_day_def clock_def)
  have 4: "map_traffic ?p (Ts 1735758000000001000) = ''Medium''"
    using t[of "Ts 1735758000000001000"] by (simp add: c traffic_by_time_of_day_def clock_def)
  have 5: "map_traffic ?p (Ts 1735693200000000000) = ''Low''"
    using t[of "Ts 1735693200000000000"] by (simp add: c traffic_by_time_of_day_def clock_def)
  have 6: "map_traffic ?p Null = ''Medium''"
    using t[of Null] by (simp add: c traffic_by_time_of_day_def)
  have l: "map_traffic ?p (Str ''01-01 09:00:00'') \<in> set traffic_labels"
    using t[of "Str ''01-01 09:00:00''"] by blast
  from v l c(1,2,3) 1 2 3 4 5 6 show ?thesis by (intro conjI)
qed

text \<open>The boundary instances: 09:00:00 is High, 19:00:01 is not Jam.\<close>

lemma traffic_boundaries:
  "traffic_bucket (hms 9 0 0) = ''High''" "traffic_bucket (hms 19 0 1) \<noteq> ''Jam''"
  by (simp_all add: traffic_bucket_def time_le_def hms_def)

section \<open>Properties of the tables\<close>

lemma and_then_simps [simp]: "and_then (Inr v) f = f v" "and_then (Inl e) f = Inl e"
  by (simp_all add: and_then_def)

lemma columns_setitem [simp]:
  "columns (setitem df c vs) = (if c \<in> set (columns df) then columns df else columns df @ [c])"
  by (simp add: setitem_def)

lemma columns_DataFrame_delivery:
  "columns (DataFrame idx [(''order_id'', a), (''Date'', b), (''pickup_time'', c),
     (''delivery_time'', d), (''pickup_lat'', e), (''pickup_lng'', f), (''drop_lat'', g),
     (''drop_lng'', h), (''weather'', i), (''traffic'', j)])
   = [''order_id'', ''Date'', ''pickup_time'', ''delivery_time'', ''pickup_lat'',
     ''pickup_lng'', ''drop_lat'', ''drop_lng'', ''weather'', ''traffic'']"
  by (simp add: DataFrame_def)

lemma columns_DataFrame_amazon:
  "columns (DataFrame idx [(''order_id'', a), (''Date'', b), (''pickup_time'', c),
     (''delivery_time'', d), (''pickup_lat'', e), (''pickup_lng'', f), (''drop_lat'', g),
     (''drop_lng'', h), (''traffic'', i), (''weather'', j)])
   = [''order_id'', ''Date'', ''pickup_time'', ''delivery_time'', ''pickup_lat'',
     ''pickup_lng'', ''drop_lat'', ''drop_lng'', ''traffic'', ''weather'']"
  by (simp add: DataFrame_def)

lemma getitem_in [simp]: "c \<in> set (columns df) \<Longrightarrow> getitem df c = Inr (series df c)"
  by (simp add: getitem_def)

lemma getitem_notin [simp]: "c \<notin> set (columns df) \<Longrightarrow> getitem df c = Inl KeyError"
  by (simp add: getitem_def)

lemma transform_delivery_KeyError:
  assumes "\<not> frame_empty df" "\<not> set delivery_required \<subseteq> set (columns df)"
  shows "transform_delivery_dataset parse df = Inl KeyError"
  using assms
  unfolding transform_delivery_dataset_def Let_def delivery_required_def
  apply (simp add: columns_DataFrame_delivery)
  apply (cases "''accept_time'' \<in> set (columns df)"; simp)
  apply (cases "''delivery_time'' \<in> set (columns df)"; simp)
  apply (cases "''order_id'' \<in> set (columns df)"; simp)
  apply (cases "''accept_gps_lat'' \<in> set (columns df)"; simp)
  apply (cases "''lat'' \<in> set (columns df)"; simp)
  apply (cases "''accept_gps_lng'' \<in> set (columns df)"; simp)
  apply (cases "''lng'' \<in> set (columns df)"; simp)
  apply (cases "''delivery_gps_lat'' \<in> set (columns df)"; simp)
  done

lemma cell_at_set_cell [simp]:
  "cell_at (set_cell c v r) c' = (if c' = c then v else cell_at r c')"
  by (induction r) (auto simp: cell_at_def)

lemma length_rows_setitem [simp]:
  "length (rows (setitem df c vs)) = min (length (rows df)) (length vs)"
  by (simp add: setitem_def)

lemma rows_setitem_nth:
  "j < length (rows df) \<Longrightarrow> j < length vs \<Longrightarrow>
   rows (setitem df c vs) ! j = (fst (rows df ! j), set_cell c (vs ! j) (snd (rows df ! j)))"
  by (simp add: setitem_def split: prod.splits)

lemma length_series [simp]: "length (series df c) = length (rows df)"
  by (simp add: series_def)

lemma series_nth: "j < length (rows df) \<Longrightarrow> series df c ! j = cell df j c"
  by (simp add: series_def cell_def split: prod.splits)

lemma cell_setitem:
  "j < length (rows df) \<Longrightarrow> j < length vs \<Longrightarrow>
   cell (setitem df c vs) j c' = (if c' = c then vs ! j else cell df j c')"
  by (simp add: cell_def rows_setitem_nth)

lemma index_setitem:
  "j < length (rows df) \<Longrightarrow> j < length vs \<Longrightarrow>
   fst (rows (setitem df c vs) ! j) = fst (rows df ! j)"
  by (simp add: rows_setitem_nth)

lemma foldl_setitem_rows:
  assumes "\<forall>(c, col) \<in> set data. \<forall>vs. col = Some vs \<longrightarrow> length vs = n"
    and "length (rows df0) = n" and "j < n"
  shows "length (rows (foldl (\<lambda>df (c, col). setitem df c (case col of None \<Rightarrow> replicate n Null | Some vs \<Rightarrow> vs)) df0 data)) = n
       \<and> rows (foldl (\<lambda>df (c, col). setitem df c (case col of None \<Rightarrow> replicate n Null | Some vs \<Rightarrow> vs)) df0 data) ! j
         = (fst (rows df0 ! j), foldl (\<lambda>r (c, col). set_cell c (col_val col j) r) (snd (rows df0 ! j)) data)"
  using assms
proof (induction data arbitrary: df0)
  case Nil
  then show ?case by simp
next
  case (Cons a data)
  obtain c col where a: "a = (c, col)" by (cases a)
  let ?vs = "case col of None \<Rightarrow> replicate n Null | Some vs \<Rightarrow> vs"
  have lv: "length ?vs = n" using Cons.prems(1) a by (auto split: option.splits)
  have l1: "length (rows (setitem df0 c ?vs)) = n" using lv Cons.prems(2) by simp
  have v: "?vs ! j = col_val col j" using Cons.prems(3) by (auto simp: col_val_def split: option.splits)
  have r: "rows (setitem df0 c ?vs) ! j = (fst (rows df0 ! j), set_cell c (col_val col j) (snd (rows df0 ! j)))"
    using rows_setitem_nth[of j df0 ?vs c] lv Cons.prems(2,3) v by simp
  have "\<forall>(c, col) \<in> set data. \<forall>vs. col = Some vs \<longrightarrow> length vs = n" using Cons.prems(1) by simp
  from Cons.IH[OF this l1 Cons.prems(3)] r a show ?case by simp
qed

lemma DataFrame_rows:
  assumes "\<forall>(c, col) \<in> set data. \<forall>vs. col = Some vs \<longrightarrow> length vs = length idx" and "j < length idx"
  shows "length (rows (DataFrame idx data)) = length idx"
    and "fst (rows (DataFrame idx data) ! j) = idx ! j"
    and "cell (DataFrame idx data) j c' = cell_at (foldl (\<lambda>r (c, col). set_cell c (col_val col j) r) [] data) c'"
  using foldl_setitem_rows[OF assms(1), of "\<lparr>columns = [], rows = map (\<lambda>i. (i, [])) idx\<rparr>" j] assms(2)
  by (simp_all add: DataFrame_def cell_def)

lemma length_DataFrame:
  assumes "\<forall>(c, col) \<in> set data. \<forall>vs. col = Some vs \<longrightarrow> length vs = length idx" 
  shows "length (rows (DataFrame idx data)) = length idx"
proof (cases idx)
  case Nil
  have "rows (foldl (\<lambda>df (c, col). setitem df c (f col)) df0 data) = []" if "rows df0 = []" for df0 f
    using that by (induction data arbitrary: df0) (auto simp: setitem_def)
  then show ?thesis using Nil by (simp add: DataFrame_def)
next
  case (Cons a list)
  then show ?thesis using DataFrame_rows(1)[OF assms, of 0] by simp
qed

lemma map2_nth: "j < length xs \<Longrightarrow> j < length ys \<Longrightarrow> map2 f xs ys ! j = f (xs ! j) (ys ! j)"
  by simp

lemma length_index [simp]: "length (index df) = length (rows df)"
  by (simp add: index_def)

lemma index_nth: "j < length (rows df) \<Longrightarrow> index df ! j = fst (rows df ! j)"
  by (simp add: index_def)

lemma get_or_none_length: "get_or_none df c = Some vs \<Longrightarrow> length vs = length (rows df)"
  by (auto simp: get_or_none_def split: if_splits)

lemma col_val_get_or_none:
  "j < length (rows df) \<Longrightarrow>
   col_val (get_or_none df c) j = (if c \<in> set (columns df) then cell df j c else Null)"
  by (simp add: col_val_def get_or_none_def series_nth)

lemma col_val_simps: "col_val (Some vs) j = vs ! j" "col_val None j = Null"
  by (simp_all add: col_val_def)

lemma transform_delivery_success:
  assumes ne: "\<not> frame_empty df" and req: "set delivery_required \<subseteq> set (columns df)"
  shows "\<exists>out. transform_delivery_dataset parse df = Inr out
     \<and> columns out = canonical_columns
     \<and> length (rows out) = length (rows df)
     \<and> (\<forall>j < length (rows df).
          fst (rows out ! j) = fst (rows df ! j)
        \<and> cell out j ''order_id'' = cell df j ''order_id''
        \<and> cell out j ''Date'' = dt_date (to_datetime parse (cell df j ''accept_time''))
        \<and> cell out j ''pickup_time'' = to_datetime parse (cell df j ''accept_time'')
        \<and> cell out j ''delivery_time'' = to_datetime parse (cell df j ''delivery_time'')
        \<and> cell out j ''pickup_lat'' = fillna (cell df j ''accept_gps_lat'') (cell df j ''lat'')
        \<and> cell out j ''pickup_lng'' = fillna (cell df j ''accept_gps_lng'') (cell df j ''lng'')
        \<and> cell out j ''drop_lat'' = cell df j ''delivery_gps_lat''
        \<and> cell out j ''drop_lng'' = cell df j ''delivery_gps_lng''
        \<and> cell out j ''weather''
            = (if ''Weather_Label'' \<in> set (columns df) then cell df j ''Weather_Label'' else Null)
        \<and> cell out j ''traffic''
            = (if ''Traffic_Label'' \<in> set (columns df) then cell df j ''Traffic_Label'' else Null)
        \<and> cell out j ''ETA_target''
            = minutes_between (to_datetime parse (cell df j ''delivery_time''))
                (to_datetime parse (cell df j ''accept_time'')))"
proof -
  let ?n = "length (rows df)"
  define df1 where "df1 = setitem df ''accept_time'' (map (to_datetime parse) (series df ''accept_time''))"
  define df2 where "df2 = setitem df1 ''delivery_time'' (map (to_datetime parse) (series df1 ''delivery_time''))"
  define data where "data = [(''order_id'', Some (series df2 ''order_id'')),
              (''Date'', Some (map dt_date (series df2 ''accept_time''))),
              (''pickup_time'', Some (series df2 ''accept_time'')),
              (''delivery_time'', Some (series df2 ''delivery_time'')),
              (''pickup_lat'', Some (map2 fillna (series df2 ''accept_gps_lat'') (series df2 ''lat''))),
              (''pickup_lng'', Some (map2 fillna (series df2 ''accept_gps_lng'') (series df2 ''lng''))),
              (''drop_lat'', Some (series df2 ''delivery_gps_lat'')),
              (''drop_lng'', Some (series df2 ''delivery_gps_lng'')),
              (''weather'', get_or_none df2 ''Weather_Label''),
              (''traffic'', get_or_none df2 ''Traffic_Label'')]"
  define out0 where "out0 = DataFrame (index df2) data"
  define out where "out = setitem out0 ''ETA_target''
      (map2 minutes_between (series out0 ''delivery_time'') (series out0 ''pickup_time''))"
  have c: "''order_id'' \<in> set (columns df)" "''accept_time'' \<in> set (columns df)"
    "''delivery_time'' \<in> set (columns df)" "''accept_gps_lat'' \<in> set (columns df)"
    "''accept_gps_lng'' \<in> set (columns df)" "''lat'' \<in> set (columns df)"
    "''lng'' \<in> set (columns df)" "''delivery_gps_lat'' \<in> set (columns df)"
    "''delivery_gps_lng'' \<in> set (columns df)"
    using req by (simp_all add: delivery_required_def)
  have cols1: "columns df1 = columns df" and cols2: "columns df2 = columns df"
    using c by (simp_all add: df1_def df2_def)
  have cols0: "columns out0 = [''order_id'', ''Date'', ''pickup_time'', ''delivery_time'', ''pickup_lat'',
     ''pickup_lng'', ''drop_lat'', ''drop_lng'', ''weather'', ''traffic'']"
    unfolding out0_def data_def by (rule columns_DataFrame_delivery)
  have t: "transform_delivery_dataset parse df = Inr out"
    unfolding transform_delivery_dataset_def Let_def
    using ne c cols0
    by (simp add: df1_def[symmetric] cols1 df2_def[symmetric] cols2 data_def[symmetric]
        out0_def[symmetric] out_def)
  have colsout: "columns out = canonical_columns"
    by (simp add: out_def cols0 canonical_columns_def)
  have l1: "length (rows df1) = ?n" by (simp add: df1_def)
  have l2: "length (rows df2) = ?n" by (simp add: df2_def l1)
  have cell1: "cell df1 j c' = (if c' = ''accept_time'' then to_datetime parse (cell df j ''accept_time'') else cell df j c')"
    if "j < ?n" for j c'
    using that by (simp add: df1_def cell_setitem series_nth)
  have cell2: "cell df2 j c' = (if c' = ''delivery_time'' then to_datetime parse (cell df j ''delivery_time'')
       else if c' = ''accept_time'' then to_datetime parse (cell df j ''accept_time'') else cell df j c')"
    if "j < ?n" for j c'
    using that by (simp add: df2_def cell_setitem series_nth l1 cell1)
  have fst2: "fst (rows df2 ! j) = fst (rows df ! j)" if "j < ?n" for j
    using that by (simp add: df2_def df1_def index_setitem)
  have lens: "\<forall>(c, col) \<in> set data. \<forall>vs. col = Some vs \<longrightarrow> length vs = length (index df2)"
    by (auto simp: data_def l2 dest: get_or_none_length)
  have l0: "length (rows out0) = ?n"
    using length_DataFrame[OF lens] by (simp add: out0_def l2)
  have fst0: "fst (rows out0 ! j) = fst (rows df ! j)" if "j < ?n" for j
    using DataFrame_rows(2)[OF lens, of j] that by (simp add: out0_def l2 index_nth fst2)
  have cell0: "cell out0 j c' = cell_at (foldl (\<lambda>r (c, col). set_cell c (col_val col j) r) [] data) c'"
    if "j < ?n" for j c'
    using DataFrame_rows(3)[OF lens, of j] that by (simp add: out0_def l2)
  have lout: "length (rows out) = ?n" by (simp add: out_def l0)
  have fstout: "fst (rows out ! j) = fst (rows df ! j)" if "j < ?n" for j
    using that by (simp add: out_def index_setitem l0 fst0)
  have cellout: "cell out j c' = (if c' = ''ETA_target''
        then minutes_between (cell out0 j ''delivery_time'') (cell out0 j ''pickup_time'')
        else cell out0 j c')" if "j < ?n" for j c'
    using that by (simp add: out_def cell_setitem l0 series_nth)
  have vals: "cell out0 j ''order_id'' = cell df j ''order_id''"
     "cell out0 j ''Date'' = dt_date (to_datetime parse (cell df j ''accept_time''))"
     "cell out0 j ''pickup_time'' = to_datetime parse (cell df j ''accept_time'')"
     "cell out0 j ''delivery_time'' = to_datetime parse (cell df j ''delivery_time'')"
     "cell out0 j ''pickup_lat'' = fillna (cell df j ''accept_gps_lat'') (cell df j ''lat'')"
     "cell out0 j ''pickup_lng'' = fillna (cell df j ''accept_gps_lng'') (cell df j ''lng'')"
     "cell out0 j ''drop_lat'' = cell df j ''delivery_gps_lat''"
     "cell out0 j ''drop_lng'' = cell df j ''delivery_gps_lng''"
     "cell out0 j ''weather''
            = (if ''Weather_Label'' \<in> set (columns df) then cell df j ''Weather_Label'' else Null)"
     "cell out0 j ''traffic''
            = (if ''Traffic_Label'' \<in> set (columns df) then cell df j ''Traffic_Label'' else Null)"
    if "j < ?n" for j
    using that
    by (simp_all add: cell0 data_def col_val_get_or_none l2 cols2 cell2 col_val_simps series_nth
        cell_at_def)
  show ?thesis
    apply (rule exI[of _ out])
    apply (intro conjI allI impI t colsout lout)
    apply (simp_all add: fstout cellout vals)
    done
qed

lemma and_then_InrE:
  assumes "and_then x f = Inr y"
  obtains v where "x = Inr v" "f v = Inr y"
  using assms by (cases x) (simp_all add: and_then_def)

lemma getitem_InrE:
  assumes "getitem df c = Inr v"
  obtains "c \<in> set (columns df)" "v = series df c"
  using assms by (simp add: getitem_def split: if_splits)

lemma each_Inr_length: "each f xs = Inr ys \<Longrightarrow> length ys = length xs"
  by (induction xs arbitrary: ys) (auto split: sum.splits)

lemma each_Inr_nth: "each f xs = Inr ys \<Longrightarrow> j < length xs \<Longrightarrow> f (xs ! j) = Inr (ys ! j)"
proof (induction xs arbitrary: ys j)
  case Nil
  then show ?case by simp
next
  case (Cons x xs)
  then show ?case by (cases j) (auto split: sum.splits)
qed

lemma each_Inr_I: "(\<And>x. x \<in> set xs \<Longrightarrow> f x = Inr (g x)) \<Longrightarrow> each f xs = Inr (map g xs)"
  by (induction xs) simp_all

lemma str_add_fillna:
  "str_add left (fillna t (Str ''00:00:00'')) = Inr v \<Longrightarrow> v = Str (left @ order_time_text t)"
  by (cases t) (auto simp: str_add_def fillna_def order_time_text_def)

lemma transform_amazon_Inr:
  assumes ne: "\<not> frame_empty df" and ok: "transform_amazon_dataset parse py_str to_ns df = Inr out"
  shows "columns out = [''order_id'', ''Date'', ''pickup_time'', ''delivery_time'', ''pickup_lat'',
     ''pickup_lng'', ''drop_lat'', ''drop_lng'', ''traffic'', ''weather'', ''ETA_target'']
     \<and> length (rows out) = length (rows df)
     \<and> (\<forall>j < length (rows df).
          fst (rows out ! j) = fst (rows df ! j)
        \<and> cell out j ''order_id'' = cell df j ''Order_ID''
        \<and> cell out j ''Date'' = cell df j ''Order_Date''
        \<and> cell out j ''pickup_time''
            = to_datetime parse (Str (astype_str py_str (cell df j ''Order_Date'') @ '' '' @
                 order_time_text (cell df j ''Order_Time'')))
        \<and> (\<exists>d. to_timedelta_minutes to_ns (cell df j ''Delivery_Time'') = Inr d
              \<and> cell out j ''delivery_time'' = add_timedelta (cell out j ''pickup_time'') d)
        \<and> cell out j ''pickup_lat'' = cell df j ''Store_Latitude''
        \<and> cell out j ''pickup_lng'' = cell df j ''Store_Longitude''
        \<and> cell out j ''drop_lat'' = cell df j ''Drop_Latitude''
        \<and> cell out j ''drop_lng'' = cell df j ''Drop_Longitude''
        \<and> cell out j ''traffic'' = cell df j ''Traffic''
        \<and> cell out j ''weather'' = Null
        \<and> cell out j ''ETA_target''
            = minutes_between (cell out j ''delivery_time'') (cell out j ''pickup_time''))"
proof -
  let ?n = "length (rows df)"
  from ok ne obtain combined timedelta where
    c: "''Order_Date'' \<in> set (columns df)" "''Order_Time'' \<in> set (columns df)"
       "''Delivery_Time'' \<in> set (columns df)" "''Order_ID'' \<in> set (columns df)"
       "''Store_Latitude'' \<in> set (columns df)" "''Store_Longitude'' \<in> set (columns df)"
       "''Drop_Latitude'' \<in> set (columns df)" "''Drop_Longitude'' \<in> set (columns df)"
       "''Traffic'' \<in> set (columns df)"
    and comb: "each (\<lambda>(d, t). str_add (astype_str py_str d @ '' '') (fillna t (Str ''00:00:00'')))
                   (zip (series df ''Order_Date'') (series df ''Order_Time'')) = Inr combined"
    and td: "each (to_timedelta_minutes to_ns) (series df ''Delivery_Time'') = Inr timedelta"
    and res: "out = setitem (DataFrame (index df)
             [(''order_id'', Some (series df ''Order_ID'')),
              (''Date'', Some (series df ''Order_Date'')),
              (''pickup_time'', Some (map (to_datetime parse) combined)),
              (''delivery_time'', Some (map2 add_timedelta (map (to_datetime parse) combined) timedelta)),
              (''pickup_lat'', Some (series df ''Store_Latitude'')),
              (''pickup_lng'', Some (series df ''Store_Longitude'')),
              (''drop_lat'', Some (series df ''Drop_Latitude'')),
              (''drop_lng'', Some (series df ''Drop_Longitude'')),
              (''traffic'', Some (series df ''Traffic'')),
              (''weather'', None)]) ''ETA_target''
           (map2 minutes_between
              (series (DataFrame (index df)
             [(''order_id'', Some (series df ''Order_ID'')),
              (''Date'', Some (series df ''Order_Date'')),
              (''pickup_time'', Some (map (to_datetime parse) combined)),
              (''delivery_time'', Some (map2 add_timedelta (map (to_datetime parse) combined) timedelta)),
              (''pickup_lat'', Some (series df ''Store_Latitude'')),
              (''pickup_lng'', Some (series df ''Store_Longitude'')),
              (''drop_lat'', Some (series df ''Drop_Latitude'')),
              (''drop_lng'', Some (series df ''Drop_Longitude'')),
              (''traffic'', Some (series df ''Traffic'')),
              (''weather'', None)]) ''delivery_time'')
              (series (DataFrame (index df)
             [(''order_id'', Some (series df ''Order_ID'')),
              (''Date'', Some (series df ''Order_Date'')),
              (''pickup_time'', Some (map (to_datetime parse) combined)),
              (''delivery_time'', Some (map2 add_timedelta (map (to_datetime parse) combined) timedelta)),
              (''pickup_lat'', Some (series df ''Store_Latitude'')),
              (''pickup_lng'', Some (series df ''Store_Longitude'')),
              (''drop_lat'', Some (series df ''Drop_Latitude'')),
              (''drop_lng'', Some (series df ''Drop_Longitude'')),
              (''traffic'', Some (series df ''Traffic'')),
              (''weather'', None)]) ''pickup_time''))"
    unfolding transform_amazon_dataset_def Let_def
    by (simp only: if_False) (elim and_then_InrE getitem_InrE, auto)
  define data where "data = [(''order_id'', Some (series df ''Order_ID'')),
              (''Date'', Some (series df ''Order_Date'')),
              (''pickup_time'', Some (map (to_datetime parse) combined)),
              (''delivery_time'', Some (map2 add_timedelta (map (to_datetime parse) combined) timedelta)),
              (''pickup_lat'', Some (series df ''Store_Latitude'')),
              (''pickup_lng'', Some (series df ''Store_Longitude'')),
              (''drop_lat'', Some (series df ''Drop_Latitude'')),
              (''drop_lng'', Some (series df ''Drop_Longitude'')),
              (''traffic'', Some (series df ''Traffic'')),
              (''weather'', None)]"
  define out0 where "out0 = DataFrame (index df) data"
  have out: "out = setitem out0 ''ETA_target''
      (map2 minutes_between (series out0 ''delivery_time'') (series out0 ''pickup_time''))"
    using res by (simp add: out0_def data_def)
  have lc: "length combined = ?n" using each_Inr_length[OF comb] by simp
  have lt: "length timedelta = ?n" using each_Inr_length[OF td] by simp
  have cols0: "columns out0 = [''order_id'', ''Date'', ''pickup_time'', ''delivery_time'', ''pickup_lat'',
     ''pickup_lng'', ''drop_lat'', ''drop_lng'', ''traffic'', ''weather'']"
    unfolding out0_def data_def by (rule columns_DataFrame_amazon)
  have colsout: "columns out = [''order_id'', ''Date'', ''pickup_time'', ''delivery_time'', ''pickup_lat'',
     ''pickup_lng'', ''drop_lat'', ''drop_lng'', ''traffic'', ''weather'', ''ETA_target'']"
    by (simp add: out cols0)
  have lens: "\<forall>(c, col) \<in> set data. \<forall>vs. col = Some vs \<longrightarrow> length vs = length (index df)"
    by (auto simp: data_def lc lt)
  have l0: "length (rows out0) = ?n"
    using length_DataFrame[OF lens] by (simp add: out0_def)
  have fst0: "fst (rows out0 ! j) = fst (rows df ! j)" if "j < ?n" for j
    using DataFrame_rows(2)[OF lens, of j] that by (simp add: out0_def index_nth)
  have cell0: "cell out0 j c' = cell_at (foldl (\<lambda>r (c, col). set_cell c (col_val col j) r) [] data) c'"
    if "j < ?n" for j c'
    using DataFrame_rows(3)[OF lens, of j] that by (simp add: out0_def)
  have lout: "length (rows out) = ?n" by (simp add: out l0)
  have fstout: "fst (rows out ! j) = fst (rows df ! j)" if "j < ?n" for j
    using that by (simp add: out index_setitem l0 fst0)
  have cellout: "cell out j c' = (if c' = ''ETA_target''
        then minutes_between (cell out0 j ''delivery_time'') (cell out0 j ''pickup_time'')
        else cell out0 j c')" if "j < ?n" for j c'
    using that by (simp add: out cell_setitem l0 series_nth)
  have combj: "combined ! j = Str (astype_str py_str (cell df j ''Order_Date'') @ '' '' @
                 order_time_text (cell df j ''Order_Time''))" if "j < ?n" for j
    using each_Inr_nth[OF comb, of j] that
    by (auto simp: series_nth dest: str_add_fillna)
  have tdj: "to_timedelta_minutes to_ns (cell df j ''Delivery_Time'') = Inr (timedelta ! j)"
    if "j < ?n" for j
    using each_Inr_nth[OF td, of j] that by (simp add: series_nth)
  have vals: "cell out0 j ''order_id'' = cell df j ''Order_ID''"
     "cell out0 j ''Date'' = cell df j ''Order_Date''"
     "cell out0 j ''pickup_time'' = to_datetime parse (combined ! j)"
     "cell out0 j ''delivery_time'' = add_timedelta (to_datetime parse (combined ! j)) (timedelta ! j)"
     "cell out0 j ''pickup_lat'' = cell df j ''Store_Latitude''"
     "cell out0 j ''pickup_lng'' = cell df j ''Store_Longitude''"
     "cell out0 j ''drop_lat'' = cell df j ''Drop_Latitude''"
     "cell out0 j ''drop_lng'' = cell df j ''Drop_Longitude''"
     "cell out0 j ''traffic'' = cell df j ''Traffic''"
     "cell out0 j ''weather'' = Null"
    if "j < ?n" for j
    using that
    by (simp_all add: cell0 data_def col_val_simps series_nth cell_at_def lc lt)
  show ?thesis
    apply (intro conjI allI impI colsout lout)
    apply (simp_all add: fstout cellout vals combj tdj)
    done
qed

lemmas eval_defs = frame_empty_def DataFrame_def
     series_def cell_at_def index_def parse_example_def to_datetime_def astype_str_def str_add_def fillna_def
     to_timedelta_minutes_def add_timedelta_def minutes_between_def setitem_def getitem_def
     get_or_none_def dt_date_def cell_def len_def

lemma cell_at_reindex: "c \<in> set cols \<Longrightarrow> cell_at (reindex cols r) c = cell_at r c"
  by (induction cols) (auto simp: reindex_def cell_at_def)

lemma rows_concat_nth:
  "j < length (rows df1 @ rows df2) \<Longrightarrow>
   rows (concat_ignore_index df1 df2) ! j
   = (int j, reindex (columns (concat_ignore_index df1 df2)) (snd ((rows df1 @ rows df2) ! j)))"
  by (simp add: concat_ignore_index_def Let_def nth_enumerate_eq split: prod.splits)

lemma length_rows_concat [simp]:
  "length (rows (concat_ignore_index df1 df2)) = length (rows df1) + length (rows df2)"
  by (simp add: concat_ignore_index_def Let_def)

lemma index_concat:
  "index (concat_ignore_index df1 df2) = map int [0..<length (rows df1) + length (rows df2)]"
  by (rule nth_equalityI) (simp_all add: index_def rows_concat_nth)

lemma set_columns_concat:
  "set (columns (concat_ignore_index df1 df2)) = set (columns df1) \<union> set (columns df2)"
  by (auto simp: concat_ignore_index_def Let_def)

lemma cell_concat_left:
  "j < length (rows df1) \<Longrightarrow> c \<in> set (columns (concat_ignore_index df1 df2)) \<Longrightarrow>
   cell (concat_ignore_index df1 df2) j c = cell df1 j c"
  by (simp add: cell_def rows_concat_nth cell_at_reindex nth_append)

lemma cell_concat_right:
  "j < length (rows df2) \<Longrightarrow> c \<in> set (columns (concat_ignore_index df1 df2)) \<Longrightarrow>
   cell (concat_ignore_index df1 df2) (length (rows df1) + j) c = cell df2 j c"
  by (simp add: cell_def rows_concat_nth cell_at_reindex nth_append)

lemma transform_delivery_empty: "frame_empty e \<Longrightarrow> transform_delivery_dataset parse e = Inr empty_frame"
  by (simp add: transform_delivery_dataset_def)

lemma transform_amazon_empty:
  "frame_empty a \<Longrightarrow> transform_amazon_dataset parse py_str to_ns a = Inr empty_frame"
  by (simp add: transform_amazon_dataset_def)

lemma frame_empty_empty_frame [simp]: "frame_empty empty_frame" "rows empty_frame = []"
  by (simp_all add: frame_empty_def empty_frame_def)

lemma transform_delivery_Inr_columns:
  assumes "transform_delivery_dataset parse e = Inr df1" "\<not> frame_empty e"
  shows "columns df1 = canonical_columns" "length (rows df1) = length (rows e)"
proof -
  have "set delivery_required \<subseteq> set (columns e)"
    using transform_delivery_KeyError[OF assms(2), of parse] assms(1) by auto
  from transform_delivery_success[OF assms(2) this, of parse] assms(1)
  show "columns df1 = canonical_columns" "length (rows df1) = length (rows e)" by auto
qed

lemma align_columns:
  assumes "align parse py_str to_ns enriched amazon = Inr out" "\<not> frame_empty out"
  shows "columns out = (if frame_empty enriched then external_columns else canonical_columns)"
proof -
  from assms(1) obtain df1 where t1: "transform_delivery_dataset parse enriched = Inr df1"
    by (cases "transform_delivery_dataset parse enriched") (simp_all add: align_def)
  from assms(1) t1 obtain df2 where t2: "transform_amazon_dataset parse py_str to_ns amazon = Inr df2"
    by (cases "transform_amazon_dataset parse py_str to_ns amazon") (simp_all add: align_def)
  have o: "out = (if frame_empty df1 \<and> frame_empty df2 then empty_frame
       else if frame_empty df1 then df2 else if frame_empty df2 then df1
       else concat_ignore_index df1 df2)"
    using assms(1) t1 t2 by (simp add: align_def split: if_splits)
  have a: "columns df2 = external_columns" if "\<not> frame_empty amazon"
    using transform_amazon_Inr[OF that t2] by (simp add: external_columns_def)
  have a0: "df2 = empty_frame" if "frame_empty amazon"
    using that t2 by (simp add: transform_amazon_empty)
  show ?thesis
  proof (cases "frame_empty enriched")
    case True
    then have "df1 = empty_frame" using t1 by (simp add: transform_delivery_empty)
    with o assms(2) True a a0 show ?thesis by (cases "frame_empty amazon") (auto split: if_splits)
  next
    case False
    from transform_delivery_Inr_columns[OF t1 False]
    have c: "columns df1 = canonical_columns" and l: "length (rows df1) = length (rows enriched)" .
    have ne: "\<not> frame_empty df1" using False c l by (auto simp: frame_empty_def canonical_columns_def)
    show ?thesis
    proof (cases "frame_empty amazon")
      case True
      with o ne a0 c False show ?thesis by simp
    next
      case f: False
      then show ?thesis using o ne c a False
        by (auto simp: concat_ignore_index_def Let_def canonical_columns_def external_columns_def)
    qed
  qed
qed

lemma transform_amazon_example:
  "transform_amazon_dataset parse_example (\<lambda>c. ''nan'') floor amazon_example
   = Inr amazon_canonical_example"
  by (simp add: transform_amazon_dataset_def amazon_example_def amazon_canonical_example_def
      eval_defs)

lemma transform_delivery_example:
  "transform_delivery_dataset parse_example enriched_example = Inr enriched_canonical_example"
  by (simp add: transform_delivery_dataset_def enriched_example_def
      enriched_canonical_example_def eval_defs)


section \<open>Properties of the transformation\<close>




text \<open>
  Claim C6: \<open>align\<close> on two empty inputs returns the empty table, with no rows; when
  exactly one transformed side is empty it returns the other transformed side as it is; and
  when both are non-empty it returns the local rows followed by the external-provider rows,
  each source in its order and every cell unchanged, with the index renumbered from 0 to
  the row count.
\<close>

theorem align_cases:
  "(frame_empty enriched \<and> frame_empty amazon \<longrightarrow>
      align parse py_str to_ns enriched amazon = Inr empty_frame \<and> len empty_frame = 0)
   \<and> (transform_delivery_dataset parse enriched = Inr local
        \<and> transform_amazon_dataset parse py_str to_ns amazon = Inr external \<longrightarrow>
        (frame_empty local \<and> \<not> frame_empty external \<longrightarrow> align parse py_str to_ns enriched amazon = Inr external)
      \<and> (\<not> frame_empty local \<and> frame_empty external \<longrightarrow> align parse py_str to_ns enriched amazon = Inr local)
      \<and> (\<not> frame_empty local \<and> \<not> frame_empty external \<longrightarrow>
           (\<exists>out. align parse py_str to_ns enriched amazon = Inr out
              \<and> len out = len local + len external
              \<and> index out = map int [0..<len local + len external]
              \<and> set (columns out) = set (columns local) \<union> set (columns external)
              \<and> (\<forall>j<len local. \<forall>c\<in>set (columns out). cell out j c = cell local j c)
              \<and> (\<forall>j<len external. \<forall>c\<in>set (columns out). cell out (len local + j) c = cell external j c))))"
  by (auto simp: align_def transform_delivery_empty transform_amazon_empty len_def
      index_concat set_columns_concat cell_concat_left cell_concat_right)

theorem align_cases_witness:
  "transform_delivery_dataset parse_example enriched_example = Inr enriched_canonical_example
   \<and> transform_amazon_dataset parse_example (\<lambda>c. ''nan'') floor amazon_example
       = Inr amazon_canonical_example
   \<and> \<not> frame_empty enriched_canonical_example \<and> \<not> frame_empty amazon_canonical_example
   \<and> index enriched_canonical_example = [7] \<and> index amazon_canonical_example = [3]
   \<and> (\<exists>out. align parse_example (\<lambda>c. ''nan'') floor enriched_example amazon_example = Inr out
         \<and> len out = 2 \<and> index out = [0, 1]
         \<and> cell out 0 ''order_id'' = Num 1 \<and> cell out 1 ''order_id'' = Str ''a1'')
   \<and> align parse_example (\<lambda>c. ''nan'') floor empty_frame amazon_example
       = Inr amazon_canonical_example
   \<and> align parse_example (\<lambda>c. ''nan'') floor enriched_example empty_frame
       = Inr enriched_canonical_example
   \<and> align parse_example (\<lambda>c. ''nan'') floor empty_frame empty_frame = Inr empty_frame"
proof -
  let ?p = parse_example and ?s = "\<lambda>c::cell. ''nan''" and ?f = "floor :: rat \<Rightarrow> int"
  define df1 where "df1 = enriched_canonical_example"
  define df2 where "df2 = amazon_canonical_example"
  have t1: "transform_delivery_dataset ?p enriched_example = Inr df1"
    unfolding df1_def by (rule transform_delivery_example)
  have t2: "transform_amazon_dataset ?p ?s ?f amazon_example = Inr df2"
    unfolding df2_def by (rule transform_amazon_example)
  have n1: "\<not> frame_empty df1" and n2: "\<not> frame_empty df2"
    and l1: "len df1 = 1" and l2: "len df2 = 1"
    and i1: "index df1 = [7]" and i2: "index df2 = [3]"
    and c1: "cell df1 0 ''order_id'' = Num 1" and c2: "cell df2 0 ''order_id'' = Str ''a1''"
    and k1: "''order_id'' \<in> set (columns df1)"
    by (simp_all add: df1_def df2_def enriched_canonical_example_def
        amazon_canonical_example_def frame_empty_def len_def index_def cell_def cell_at_def)
  have e0: "frame_empty empty_frame" by (simp add: frame_empty_def empty_frame_def)
  have t0: "transform_delivery_dataset ?p empty_frame = Inr empty_frame"
    "transform_amazon_dataset ?p ?s ?f empty_frame = Inr empty_frame"
    using e0 by (simp_all add: transform_delivery_dataset_def transform_amazon_dataset_def)
  from align_cases[where enriched=enriched_example and amazon=amazon_example and parse="?p"
      and py_str="?s" and to_ns="?f" and local=df1 and external=df2] t1 t2 n1 n2
  obtain out where o: "align ?p ?s ?f enriched_example amazon_example = Inr out"
    "len out = len df1 + len df2" "index out = map int [0..<len df1 + len df2]"
    "set (columns out) = set (columns df1) \<union> set (columns df2)"
    "\<forall>j<len df1. \<forall>c\<in>set (columns out). cell out j c = cell df1 j c"
    "\<forall>j<len df2. \<forall>c\<in>set (columns out). cell out (len df1 + j) c = cell df2 j c"
    by blast
  have a: "cell out 0 ''order_id'' = Num 1" using o(4,5) l1 k1 c1 by auto
  have "cell out (len df1 + 0) ''order_id'' = cell df2 0 ''order_id''"
    using o(4,6) l2 k1 by (metis UnI1 zero_less_one)
  then have b: "cell out 1 ''order_id'' = Str ''a1''" using l1 c2 by simp
  have ix: "index out = [0, 1]" using o(3) l1 l2 by (simp add: upt_rec)
  have x: "align ?p ?s ?f empty_frame amazon_example = Inr df2"
    using align_cases[where enriched=empty_frame and amazon=amazon_example and parse="?p"
      and py_str="?s" and to_ns="?f" and local=empty_frame and external=df2] t0 t2 e0 n2
    by blast
  have y: "align ?p ?s ?f enriched_example empty_frame = Inr df1"
    using align_cases[where enriched=enriched_example and amazon=empty_frame and parse="?p"
      and py_str="?s" and to_ns="?f" and local=df1 and external=empty_frame] t0 t1 e0 n1
    by blast
  have z: "align ?p ?s ?f empty_frame empty_frame = Inr empty_frame"
    using align_cases[where enriched=empty_frame and amazon=empty_frame and parse="?p"
      and py_str="?s" and to_ns="?f" and local=empty_frame and external=empty_frame] e0
    by blast
  have w: "\<exists>out. align ?p ?s ?f enriched_example amazon_example = Inr out
         \<and> len out = 2 \<and> index out = [0, 1]
         \<and> cell out 0 ''order_id'' = Num 1 \<and> cell out 1 ''order_id'' = Str ''a1''"
    using o(1,2) l1 l2 ix a b by (intro exI[of _ out]) simp
  from t1 t2 n1 n2 i1 i2 w x y z show ?thesis unfolding df1_def df2_def by blast
qed

text \<open>
  Claim C9 says every non-empty table of \<open>align\<close> has the columns in the order ...,
  weather, traffic, ETA_target. When only the external-provider side is non-empty the code
  returns them in the order ..., traffic, weather, ETA_target (lemma \<open>align_columns\<close>
  gives the columns in every case). The evaluation at one external-provider order:
\<close>

theorem align_external_only_columns:
  "align parse_example (\<lambda>c. ''nan'') floor empty_frame amazon_example
     = Inr amazon_canonical_example
   \<and> \<not> frame_empty amazon_canonical_example
   \<and> columns amazon_canonical_example
       = [''order_id'', ''Date'', ''pickup_time'', ''delivery_time'', ''pickup_lat'',
          ''pickup_lng'', ''drop_lat'', ''drop_lng'', ''traffic'', ''weather'', ''ETA_target'']
   \<and> columns amazon_canonical_example \<noteq> canonical_columns"
  by (simp add: align_def transform_delivery_empty transform_amazon_example)
     (simp add: amazon_canonical_example_def frame_empty_def canonical_columns_def)



section \<open>Properties of the ingestion\<close>

lemma columns_rename [simp]: "columns (rename_columns f df) = map f (columns df)"
  by (simp add: rename_columns_def)



lemma find_Some_in: "find P xs = Some x \<Longrightarrow> x \<in> set xs \<and> P x"
  by (auto simp: find_Some_iff)

lemma load_data_Some:
  assumes "files d = Some dd" "files w = Some ww"
  shows "load_data parse files d w =
     (if ''accept_time'' \<in> set (map normalize_label (columns dd)) then
        (case find (\<lambda>c. c \<in> set (map normalize_label (columns ww))) time_candidates of
           None \<Rightarrow> Inl KeyError
         | Some col \<Rightarrow>
             Inr \<lparr>delivery_df =
                    (let df = setitem (rename_columns normalize_label dd) ''accept_time''
                        (map (to_datetime parse) (series (rename_columns normalize_label dd) ''accept_time''))
                     in if ''delivery_time'' \<in> set (map normalize_label (columns dd))
                        then setitem df ''delivery_time'' (map (to_datetime parse) (series df ''delivery_time''))
                        else df),
                  weather_df = setitem (rename_columns normalize_label ww) col
                     (map (to_datetime parse) (series (rename_columns normalize_label ww) col)),
                  weather_time_col = col\<rparr>)
      else Inl KeyError)"
  using assms by (auto simp: load_data_def Let_def split: option.splits)



lemma rows_rename_length [simp]: "length (rows (rename_columns f df)) = length (rows df)"
  by (simp add: rename_columns_def)


lemma load_data_Inr:
  assumes "load_data parse files d w = Inr st"
  obtains dd ww where "files d = Some dd" "files w = Some ww"
    "''accept_time'' \<in> set (map normalize_label (columns dd))"
    "find (\<lambda>c. c \<in> set (map normalize_label (columns ww))) time_candidates
       = Some (weather_time_col st)"
    "delivery_df st =
       (let df = setitem (rename_columns normalize_label dd) ''accept_time''
                   (map (to_datetime parse)
                      (series (rename_columns normalize_label dd) ''accept_time''))
        in if ''delivery_time'' \<in> set (map normalize_label (columns dd))
           then setitem df ''delivery_time'' (map (to_datetime parse) (series df ''delivery_time''))
           else df)"
    "weather_df st = setitem (rename_columns normalize_label ww) (weather_time_col st)
        (map (to_datetime parse)
           (series (rename_columns normalize_label ww) (weather_time_col st)))"
proof -
  from assms obtain dd where d: "files d = Some dd"
    by (cases "files d") (simp_all add: load_data_def)
  from assms d obtain ww where w: "files w = Some ww"
    by (cases "files w") (simp_all add: load_data_def)
  from assms show thesis
    unfolding load_data_Some[OF d w]
    by (auto split: if_splits option.splits intro!: that[OF d w])
qed

lemma load_data_columns:
  assumes "load_data parse files d w = Inr st" "files d = Some dd" "files w = Some ww"
  shows "columns (delivery_df st) = map normalize_label (columns dd)"
    and "columns (weather_df st) = map normalize_label (columns ww)"
    and "''accept_time'' \<in> set (columns (delivery_df st))"
    and "weather_time_col st \<in> set (columns (weather_df st))"
    and "weather_time_col st \<in> set time_candidates"
    and "length (rows (delivery_df st)) = length (rows dd)"
    and "length (rows (weather_df st)) = length (rows ww)"
proof -
  from load_data_Inr[OF assms(1)] assms(2,3)
  have a: "''accept_time'' \<in> set (map normalize_label (columns dd))"
   and f: "find (\<lambda>c. c \<in> set (map normalize_label (columns ww))) time_candidates
       = Some (weather_time_col st)"
   and dv: "delivery_df st =
       (let df = setitem (rename_columns normalize_label dd) ''accept_time''
                   (map (to_datetime parse)
                      (series (rename_columns normalize_label dd) ''accept_time''))
        in if ''delivery_time'' \<in> set (map normalize_label (columns dd))
           then setitem df ''delivery_time'' (map (to_datetime parse) (series df ''delivery_time''))
           else df)"
   and wv: "weather_df st = setitem (rename_columns normalize_label ww) (weather_time_col st)
        (map (to_datetime parse)
           (series (rename_columns normalize_label ww) (weather_time_col st)))"
    by (metis option.inject)+
  from find_Some_in[OF f] have fw: "weather_time_col st \<in> set time_candidates"
    "weather_time_col st \<in> set (map normalize_label (columns ww))" by auto
  show "columns (delivery_df st) = map normalize_label (columns dd)"
    using a by (simp add: dv Let_def)
  then show "''accept_time'' \<in> set (columns (delivery_df st))" using a by simp
  show "columns (weather_df st) = map normalize_label (columns ww)"
    using fw by (simp add: wv)
  then show "weather_time_col st \<in> set (columns (weather_df st))" using fw by simp
  show "weather_time_col st \<in> set time_candidates" by (rule fw)
  show "length (rows (delivery_df st)) = length (rows dd)" by (simp add: dv Let_def)
  show "length (rows (weather_df st)) = length (rows ww)" by (simp add: wv)
qed


subsection \<open>The example files\<close>

lemma normalize_examples:
  "normalize_label '' Accept_Time'' = ''accept_time''"
  "normalize_label ''order_id'' = ''order_id''"
  "normalize_label ''time'' = ''time''"
  "normalize_label ''relative_humidity_2m (%)'' = ''relative_humidity_2m (%)''"
  "normalize_label ''cloud_cover_low (%)'' = ''cloud_cover_low (%)''"
  "normalize_label ''wind_speed_10m (km/h)'' = ''wind_speed_10m (km/h)''"
  by (simp_all add: normalize_label_def strip_def is_space_def lower_char_def)

lemma load_data_example:
  "load_data parse_times files_example ''delivery.csv'' ''weather.csv'' = Inr ingest_example"
  by (simp add: load_data_def files_example_def delivery_file_example_def weather_file_example_def
      ingest_example_def rename_columns_def normalize_examples time_candidates_def
      setitem_def series_def cell_at_def to_datetime_def parse_times_def)

lemma enrich_with_weather_example:
  "enrich_with_weather ingest_example = Inr enriched_weather_example"
  by (simp add: enrich_with_weather_def ingest_example_def enriched_weather_example_def
      dropna_def sort_values_def merge_asof_backward_def last_at_most_def ts_key_def
      rename_columns_def getitem_def setitem_def series_def cell_at_def
      generate_label_def rule_def gt_def lt_def ge_def le_def Let_def)

lemma enrich_with_traffic_example:
  "enrich_with_traffic_and_vehicles strptime enriched_weather_example = Inl KeyError"
  by (simp add: enrich_with_traffic_and_vehicles_def generate_def enriched_weather_example_def
      ingest_example_def getitem_def)

subsection \<open>Errors of \<open>load_data\<close>\<close>



section \<open>Properties of the weather enrichment\<close>

lemma rename_columns_id: "rename_columns (\<lambda>c. c) df = df"
  by (simp add: rename_columns_def split_def)

lemma dropna_Inr: "c \<in> set (columns df) \<Longrightarrow>
  dropna c df = Inr (df\<lparr>rows := filter (\<lambda>(i, r). cell_at r c \<noteq> Null) (rows df)\<rparr>)"
  by (simp add: dropna_def)

lemma sort_values_Inr: "c \<in> set (columns df) \<Longrightarrow>
  sort_values c df = Inr (df\<lparr>rows := sort_key (\<lambda>(i, r). ts_key (cell_at r c)) (rows df)\<rparr>)"
  by (simp add: sort_values_def)

lemma to_time_weather_abs:
  "to_time_weather col = (\<lambda>c. if c = col then ''time_weather'' else c)"
  by (rule ext) (simp add: to_time_weather_def)

lemma to_time_weather_same: "to_time_weather ''time_weather'' = (\<lambda>c. c)"
  by (rule ext) (simp add: to_time_weather_def)

lemma merged_frame:
  assumes a: "''accept_time'' \<in> set (columns (delivery_df st))"
    and w: "weather_time_col st \<in> set (columns (weather_df st))"
    and disj: "set (columns (delivery_df st)) \<inter> set (columns (weather_df st)) = {}"
  shows "enrich_with_weather st =
     (let merged = \<lparr>columns = map (to_time_weather (weather_time_col st))
                                (columns (delivery_df st) @ columns (weather_df st)),
                     rows = map (\<lambda>(j, (i, l)). (int j, joined_row st l))
                              (enumerate 0 (clean_rows ''accept_time'' (delivery_df st)))\<rparr>
      in and_then (each (\<lambda>(i, r). generate_label (map_of r)) (rows merged)) (\<lambda>labels.
           Inr (st\<lparr>delivery_df := setitem merged ''Weather_Label'' (map Str labels)\<rparr>)))"
proof -
  let ?dc = "(delivery_df st)\<lparr>rows := clean_rows ''accept_time'' (delivery_df st)\<rparr>"
  let ?wc = "(weather_df st)\<lparr>rows := clean_rows (weather_time_col st) (weather_df st)\<rparr>"
  let ?f = "to_time_weather (weather_time_col st)"
  have ln: "(if c \<in> set (columns (weather_df st)) then c @ ''_x'' else c) = c"
    if "c \<in> set (columns (delivery_df st))" for c using that disj by auto
  have rn: "(if c \<in> set (columns (delivery_df st)) then c @ ''_y'' else c) = c"
    if "c \<in> set (columns (weather_df st))" for c using that disj by auto
  have m: "merge_asof_backward ?dc ?wc ''accept_time'' (weather_time_col st)
      = \<lparr>columns = columns (delivery_df st) @ columns (weather_df st),
         rows = map (\<lambda>(j, (i, l)). (int j,
                    map (\<lambda>c. (c, cell_at l c)) (columns (delivery_df st)) @
                    map (\<lambda>c. (c,
                          case last_at_most (ts_key (cell_at l ''accept_time'')) (weather_time_col st)
                                 (clean_rows (weather_time_col st) (weather_df st)) of
                            None \<Rightarrow> Null | Some w \<Rightarrow> cell_at w c))
                        (columns (weather_df st))))
                 (enumerate 0 (clean_rows ''accept_time'' (delivery_df st)))\<rparr>"
    unfolding merge_asof_backward_def Let_def
    by (simp add: ln rn cong: map_cong)
  have r: "(if weather_time_col st \<noteq> ''time_weather''
            then rename_columns (\<lambda>c. if c = weather_time_col st then ''time_weather'' else c) M
            else M) = rename_columns ?f M" for M
    by (cases "weather_time_col st = ''time_weather''")
       (simp_all add: to_time_weather_same rename_columns_id to_time_weather_abs[symmetric])
  have tw: "''time_weather'' \<in> set (map ?f (columns (delivery_df st) @ columns (weather_df st)))"
    using w by (auto simp: to_time_weather_def intro!: image_eqI[of _ _ "weather_time_col st"])
  have d1: "dropna ''accept_time'' (delivery_df st)
      = Inr ((delivery_df st)\<lparr>rows := filter (\<lambda>(i, r). cell_at r ''accept_time'' \<noteq> Null)
                                             (rows (delivery_df st))\<rparr>)"
    using a by (rule dropna_Inr)
  have d2: "dropna (weather_time_col st) (weather_df st)
      = Inr ((weather_df st)\<lparr>rows := filter (\<lambda>(i, r). cell_at r (weather_time_col st) \<noteq> Null)
                                             (rows (weather_df st))\<rparr>)"
    using w by (rule dropna_Inr)
  have s1: "sort_values ''accept_time''
        ((delivery_df st)\<lparr>rows := filter (\<lambda>(i, r). cell_at r ''accept_time'' \<noteq> Null)
                                             (rows (delivery_df st))\<rparr>) = Inr ?dc"
    using a by (simp add: sort_values_def clean_rows_def)
  have s2: "sort_values (weather_time_col st)
        ((weather_df st)\<lparr>rows := filter (\<lambda>(i, r). cell_at r (weather_time_col st) \<noteq> Null)
                                             (rows (weather_df st))\<rparr>) = Inr ?wc"
    using w by (simp add: sort_values_def clean_rows_def)
  have rn: "rename_columns ?f
      \<lparr>columns = columns (delivery_df st) @ columns (weather_df st),
         rows = map (\<lambda>(j, (i, l)). (int j,
                    map (\<lambda>c. (c, cell_at l c)) (columns (delivery_df st)) @
                    map (\<lambda>c. (c,
                          case last_at_most (ts_key (cell_at l ''accept_time'')) (weather_time_col st)
                                 (clean_rows (weather_time_col st) (weather_df st)) of
                            None \<Rightarrow> Null | Some w \<Rightarrow> cell_at w c))
                        (columns (weather_df st))))
                 (enumerate 0 (clean_rows ''accept_time'' (delivery_df st)))\<rparr>
     = \<lparr>columns = map ?f (columns (delivery_df st) @ columns (weather_df st)),
                     rows = map (\<lambda>(j, (i, l)). (int j, joined_row st l))
                              (enumerate 0 (clean_rows ''accept_time'' (delivery_df st)))\<rparr>"
    by (simp add: rename_columns_def joined_row_def split_def comp_def)
  show ?thesis
    unfolding enrich_with_weather_def d1 d2 and_then_simps s1 s2 Let_def m r rn
    using tw by simp
qed






lemma set_clean_rows:
  "set (clean_rows c df) = {(i, r) \<in> set (rows df). cell_at r c \<noteq> Null}"
  by (auto simp: clean_rows_def)















lemma in_enumerate_snd: "(j, x) \<in> set (enumerate n xs) \<Longrightarrow> x \<in> set xs"
  by (induction xs arbitrary: n) auto






section \<open>Properties of the traffic enrichment\<close>

text \<open>
  On numeric tables the weather enrichment raises nothing, and the labels of its result are
  those of the two tables and \<open>Weather_Label\<close>.
\<close>

lemma numeric_frameD:
  "numeric_frame df \<Longrightarrow> (i, r) \<in> set (rows df) \<Longrightarrow> k \<in> set weather_fields \<Longrightarrow>
   numeric_cell (Some (cell_at r k))"
  by (auto simp: numeric_frame_def list_all_iff)

lemma numeric_frame_setitem:
  assumes "numeric_frame df" "c \<notin> set weather_fields"
  shows "numeric_frame (setitem df c vs)"
proof -
  have "numeric_cell (Some (cell_at r' k))"
    if m: "(i, r') \<in> set (rows (setitem df c vs))" and k: "k \<in> set weather_fields" for i r' k
  proof -
    from m obtain r v where z: "((i, r), v) \<in> set (zip (rows df) vs)" and e: "r' = set_cell c v r"
      by (auto simp: setitem_def)
    from z have "(i, r) \<in> set (rows df)" by (rule set_zip_leftD)
    from numeric_frameD[OF assms(1) this k] k assms(2) show ?thesis
      unfolding e by (auto simp: cell_at_set_cell)
  qed
  then show ?thesis by (auto simp: numeric_frame_def list_all_iff)
qed

lemma last_at_most_in: "last_at_most a c rs = Some w \<Longrightarrow> w \<in> snd ` set rs"
proof -
  assume s: "last_at_most a c rs = Some w"
  let ?ws = "filter (\<lambda>(i, w). ts_key (cell_at w c) \<le> a) rs"
  from s have ne: "?ws \<noteq> []" by (auto simp: last_at_most_def)
  then obtain x xs where c: "?ws = x # xs" by (cases ?ws) auto
  have "last_at_most a c rs = Some (snd (last ?ws))"
    unfolding last_at_most_def c by simp
  with s have "w = snd (last ?ws)" by simp
  moreover have "last ?ws \<in> set ?ws" using ne by (rule last_in_set)
  ultimately show ?thesis by auto
qed

lemma to_time_weather_field:
  "k \<in> set weather_fields \<Longrightarrow> to_time_weather col c = k \<Longrightarrow> c = k"
  by (auto simp: to_time_weather_def weather_fields_def split: if_splits)

lemma numeric_joined_row:
  assumes nd: "numeric_frame (delivery_df st)" and nw: "numeric_frame (weather_df st)"
    and l: "(i, l) \<in> set (rows (delivery_df st))"
  shows "numeric_row (map_of (joined_row st l))"
proof -
  let ?m = "last_at_most (ts_key (cell_at l ''accept_time'')) (weather_time_col st)
              (clean_rows (weather_time_col st) (weather_df st))"
  have "numeric_cell (map_of (joined_row st l) k)" if k: "k \<in> set weather_fields" for k
  proof (cases "map_of (joined_row st l) k")
    case None
    then show ?thesis by simp
  next
    case (Some v)
    then have "(k, v) \<in> set (joined_row st l)" by (rule map_of_SomeD)
    then consider c where "c \<in> set (columns (delivery_df st))"
        "to_time_weather (weather_time_col st) c = k" "v = cell_at l c"
      | c where "c \<in> set (columns (weather_df st))"
        "to_time_weather (weather_time_col st) c = k"
        "v = (case ?m of None \<Rightarrow> Null | Some w \<Rightarrow> cell_at w c)"
      by (auto simp: joined_row_def)
    then show ?thesis
    proof cases
      case 1
      from to_time_weather_field[OF k 1(2)] 1(3) have "v = cell_at l k" by simp
      with numeric_frameD[OF nd l k] Some show ?thesis by simp
    next
      case 2
      from to_time_weather_field[OF k 2(2)] have ck: "c = k" .
      have v: "v = (case ?m of None \<Rightarrow> Null | Some w \<Rightarrow> cell_at w k)"
        using 2(3) unfolding ck .
      show ?thesis
      proof (cases ?m)
        case None
        with v Some show ?thesis by simp
      next
        case (Some w0)
        from last_at_most_in[OF this] obtain i0 where
          "(i0, w0) \<in> set (clean_rows (weather_time_col st) (weather_df st))" by auto
        then have "(i0, w0) \<in> set (rows (weather_df st))" by (auto simp: set_clean_rows)
        from numeric_frameD[OF nw this k] v Some \<open>map_of (joined_row st l) k = Some v\<close>
        show ?thesis by simp
      qed
    qed
  qed
  then show ?thesis by (simp add: numeric_row_def list_all_iff)
qed

lemma enrich_with_weather_completes:
  assumes a: "''accept_time'' \<in> set (columns (delivery_df st))"
    and w: "weather_time_col st \<in> set (columns (weather_df st))"
    and disj: "set (columns (delivery_df st)) \<inter> set (columns (weather_df st)) = {}"
    and nd: "numeric_frame (delivery_df st)" and nw: "numeric_frame (weather_df st)"
  shows "\<exists>st'. enrich_with_weather st = Inr st'
           \<and> set (columns (delivery_df st'))
               \<subseteq> to_time_weather (weather_time_col st)
                   ` (set (columns (delivery_df st)) \<union> set (columns (weather_df st)))
                 \<union> {''Weather_Label''}"
proof -
  let ?rows = "map (\<lambda>(j, (i, l)). (int j, joined_row st l))
                 (enumerate 0 (clean_rows ''accept_time'' (delivery_df st)))"
  have g: "(\<lambda>(i, r). generate_label (map_of r)) x
           = Inr ((\<lambda>(i, r). weather_label_by_rules (map_of r)) x)"
    if "x \<in> set ?rows" for x
  proof -
    from that obtain n i l where
      "(n, (i, l)) \<in> set (enumerate 0 (clean_rows ''accept_time'' (delivery_df st)))"
      and x: "x = (int n, joined_row st l)" by auto
    then have "(i, l) \<in> set (clean_rows ''accept_time'' (delivery_df st))"
      by (auto dest: in_enumerate_snd)
    then have "(i, l) \<in> set (rows (delivery_df st))" by (auto simp: set_clean_rows)
    from numeric_joined_row[OF nd nw this]
    show ?thesis unfolding x by (simp add: generate_label_rules)
  qed
  have e: "each (\<lambda>(i, r). generate_label (map_of r)) ?rows
        = Inr (map (\<lambda>(i, r). weather_label_by_rules (map_of r)) ?rows)"
    by (rule each_Inr_I) (rule g)
  show ?thesis
    unfolding merged_frame[OF a w disj] Let_def
    by (simp only: dataframe.simps e and_then_simps) (auto simp: Let_def)
qed

text \<open>
  Whatever the tables hold, without a \<open>delivery_time\<close> label the traffic enrichment raises
  \<open>KeyError\<close>, and so does the transformation of the enriched table.
\<close>

lemma delivery_time_absent:
  assumes fd: "files d = Some dd" and fw: "files w = Some ww"
    and acc: "''accept_time'' \<in> set (map normalize_label (columns dd))"
    and cand: "\<exists>c \<in> set [''time_weather'', ''timestamp'', ''datetime'', ''time'', ''weather_time''].
                  c \<in> set (map normalize_label (columns ww))"
    and nd: "''delivery_time'' \<notin> set (map normalize_label (columns dd))"
    and nw: "''delivery_time'' \<notin> set (map normalize_label (columns ww))"
    and disj: "set (map normalize_label (columns dd)) \<inter> set (map normalize_label (columns ww)) = {}"
    and numd: "numeric_frame (rename_columns normalize_label dd)"
    and numw: "numeric_frame (rename_columns normalize_label ww)"
  shows "\<exists>st st'. load_data parse files d w = Inr st
           \<and> enrich_with_weather st = Inr st'
           \<and> enrich_with_traffic_and_vehicles strptime st' = Inl KeyError
           \<and> (\<not> frame_empty (delivery_df st') \<longrightarrow>
                 transform_delivery_dataset parse (delivery_df st') = Inl KeyError)"
proof -
  from cand have "find (\<lambda>c. c \<in> set (map normalize_label (columns ww))) time_candidates \<noteq> None"
    unfolding find_None_iff time_candidates_def by blast
  then obtain col where col: "find (\<lambda>c. c \<in> set (map normalize_label (columns ww))) time_candidates
      = Some col" by blast
  define st where "st = \<lparr>delivery_df = setitem (rename_columns normalize_label dd) ''accept_time''
                        (map (to_datetime parse) (series (rename_columns normalize_label dd) ''accept_time'')),
                  weather_df = setitem (rename_columns normalize_label ww) col
                     (map (to_datetime parse) (series (rename_columns normalize_label ww) col)),
                  weather_time_col = col\<rparr>"
  have ld: "load_data parse files d w = Inr st"
    unfolding load_data_Some[OF fd fw] st_def using acc nd col by (simp add: Let_def)
  note c = load_data_columns[OF ld fd fw]
  have colc: "col \<in> set time_candidates" using c(5) by (simp add: st_def)
  have nfd: "numeric_frame (delivery_df st)"
    unfolding st_def data_ingest.simps
    by (rule numeric_frame_setitem[OF numd]) (simp add: weather_fields_def)
  have nfw: "numeric_frame (weather_df st)"
    unfolding st_def data_ingest.simps
    by (rule numeric_frame_setitem[OF numw]) (use colc in \<open>auto simp: weather_fields_def time_candidates_def\<close>)
  have dj: "set (columns (delivery_df st)) \<inter> set (columns (weather_df st)) = {}"
    unfolding c(1,2) by (rule disj)
  from enrich_with_weather_completes[OF c(3) c(4) dj nfd nfw]
  obtain st' where en: "enrich_with_weather st = Inr st'"
    and sub: "set (columns (delivery_df st'))
               \<subseteq> to_time_weather (weather_time_col st)
                   ` (set (columns (delivery_df st)) \<union> set (columns (weather_df st)))
                 \<union> {''Weather_Label''}"
    by blast
  have nodt: "''delivery_time'' \<notin> set (columns (delivery_df st'))"
  proof
    assume "''delivery_time'' \<in> set (columns (delivery_df st'))"
    with sub have "''delivery_time'' \<in> to_time_weather (weather_time_col st)
                   ` (set (columns (delivery_df st)) \<union> set (columns (weather_df st)))
                 \<union> {''Weather_Label''}"
      by (rule subsetD)
    moreover have "''delivery_time'' \<noteq> ''Weather_Label''" by simp
    ultimately have im: "''delivery_time'' \<in> to_time_weather (weather_time_col st)
                   ` (set (columns (delivery_df st)) \<union> set (columns (weather_df st)))"
      by (simp del: image_Un)
    from im obtain c' where
      m0: "c' \<in> set (columns (delivery_df st)) \<union> set (columns (weather_df st))"
      and e0: "''delivery_time'' = to_time_weather (weather_time_col st) c'"
      by (rule imageE)
    from m0 have m: "c' \<in> set (columns (delivery_df st)) \<or> c' \<in> set (columns (weather_df st))"
      by (rule UnE) (rule disjI1, assumption, rule disjI2, assumption)
    from e0 have e: "to_time_weather (weather_time_col st) c' = ''delivery_time''" by (rule sym)
    from e have "c' = ''delivery_time''"
      by (simp add: to_time_weather_def split: if_splits)
    with m have "''delivery_time'' \<in> set (columns (delivery_df st))
               \<or> ''delivery_time'' \<in> set (columns (weather_df st))"
      by simp
    then show False using nd nw unfolding c(1,2) by blast
  qed
  have tr: "enrich_with_traffic_and_vehicles strptime st' = Inl KeyError"
    using nodt by (simp add: enrich_with_traffic_and_vehicles_def generate_def)
  have eta: "\<not> frame_empty (delivery_df st') \<longrightarrow>
                 transform_delivery_dataset parse (delivery_df st') = Inl KeyError"
  proof
    assume ne: "\<not> frame_empty (delivery_df st')"
    have "\<not> set delivery_required \<subseteq> set (columns (delivery_df st'))"
      using nodt by (auto simp: delivery_required_def)
    from transform_delivery_KeyError[OF ne this]
    show "transform_delivery_dataset parse (delivery_df st') = Inl KeyError" .
  qed
  from ld en tr eta show ?thesis by blast
qed

text \<open>
  Claim C8 says that without a \<open>delivery_time\<close> column ingestion and both enrichment steps
  complete. \<open>load_data\<close> converts the column only when it is a label, and
  \<open>enrich_with_weather\<close> does not read it, but \<open>generate\<close> reads \<open>df["delivery_time"]\<close>
  with no such test, so the traffic enrichment raises \<open>KeyError\<close> (lemma
  \<open>delivery_time_absent\<close> gives this for all files with numeric measurements and disjoint
  labels). The evaluation at the example files, whose delivery table has no such column:
\<close>

theorem traffic_enrichment_without_delivery_time:
  "columns delivery_file_example = ['' Accept_Time'', ''order_id'']
   \<and> load_data parse_times files_example ''delivery.csv'' ''weather.csv'' = Inr ingest_example
   \<and> enrich_with_weather ingest_example = Inr enriched_weather_example
   \<and> enrich_with_traffic_and_vehicles Map.empty enriched_weather_example = Inl KeyError"
  using load_data_example enrich_with_weather_example enrich_with_traffic_example[of Map.empty]
  by (simp add: delivery_file_example_def)

end
